theory Spec2Isabelle
  imports Complex_Main
begin

section \<open>JavaScript values\<close>

text \<open>
  The server (\<^verbatim>\<open>server/server.js\<close>) is an Express application over three pieces
  of process-wide state: the weather cache (a \<^verbatim>\<open>Map\<close>) and the arrays \<^verbatim>\<open>crops\<close> and
  \<^verbatim>\<open>todos\<close>. Each handler is embedded as a function from the state and the request to
  the new state, the response and the effects it performed.

  A JavaScript number is a binary64 value. Every finite binary64 value is a rational, so
  a finite number is modelled by its exact value; both zeros are \<open>Fin 0\<close> (the program
  never distinguishes them: both are falsy, and both print without a sign).
\<close>

datatype jsnum = NaN | PosInf | NegInf | Fin rat

datatype ('a, 'e) outcome = Returns 'a | Throws 'e

text \<open>
  A value: the JSON values, \<^verbatim>\<open>undefined\<close>, and a callable. Calling \<open>Fun c\<close> with no
  argument has the outcome \<open>c\<close> (it returns a value or throws one). An object is the list
  of its own enumerable properties.
\<close>

datatype jsval =
    Undefined
  | Null
  | Bool bool
  | Num jsnum
  | Str string
  | Arr "jsval list"
  | Obj "(string \<times> jsval) list"
  | Fun "(jsval, jsval) outcome"

type_synonym obj = "(string \<times> jsval) list"

type_synonym 'a outcome_of = "('a, jsval) outcome"

text \<open>ToBoolean.\<close>

fun truthy :: "jsval \<Rightarrow> bool" where
  "truthy Undefined = False"
| "truthy Null = False"
| "truthy (Bool b) = b"
| "truthy (Num n) = (n \<noteq> NaN \<and> n \<noteq> Fin 0)"
| "truthy (Str s) = (s \<noteq> [])"
| "truthy (Arr xs) = True"
| "truthy (Obj kvs) = True"
| "truthy (Fun c) = True"

text \<open>
  Property read \<^verbatim>\<open>v.k\<close> for the property names the program reads (\<^verbatim>\<open>id\<close>, \<^verbatim>\<open>name\<close>,
  \<^verbatim>\<open>lat\<close>, \<^verbatim>\<open>text\<close>, ...): an object answers with its own property, every other
  value the program meets has no property of these names. \<^verbatim>\<open>v?.k\<close> is the same read
  guarded against \<^verbatim>\<open>undefined\<close> and \<^verbatim>\<open>null\<close>, where the plain read throws.
\<close>

fun lookup :: "obj \<Rightarrow> string \<Rightarrow> jsval" where
  "lookup [] k = Undefined"
| "lookup ((k', v) # kvs) k = (if k' = k then v else lookup kvs k)"

fun opt_get :: "jsval \<Rightarrow> string \<Rightarrow> jsval" where
  "opt_get (Obj kvs) k = lookup kvs k"
| "opt_get v k = Undefined"

section \<open>Printing numbers\<close>

text \<open>The decimal digits of a non-negative integer, most significant first.\<close>

definition digit :: "int \<Rightarrow> char" where
  "digit d = ''0123456789'' ! nat d"

function digits :: "int \<Rightarrow> string" where
  "digits n = (if n < 10 then [digit n] else digits (n div 10) @ [digit (n mod 10)])"
  by pat_completeness auto
termination
  by (relation "measure nat") auto

declare digits.simps [simp del]

text \<open>
  \<^verbatim>\<open>Number.prototype.toFixed(3)\<close>, as ECMAScript defines it: a value that is not finite
  prints by name; otherwise the sign is split off, a magnitude of \<open>10\<^sup>2\<^sup>1\<close> or more prints
  as \<^verbatim>\<open>ToString\<close> does (exponent notation, left to the parameter \<open>big\<close>); any other
  magnitude \<open>a\<close> prints the integer \<open>n\<close> nearest to \<open>1000 * a\<close> (the larger one on a tie),
  padded to at least four digits, with a point before the last three.
\<close>

definition toFixed3 :: "(rat \<Rightarrow> string) \<Rightarrow> jsnum \<Rightarrow> string" where
  "toFixed3 big x =
     (case x of
        NaN \<Rightarrow> ''NaN''
      | PosInf \<Rightarrow> ''Infinity''
      | NegInf \<Rightarrow> ''-Infinity''
      | Fin q \<Rightarrow>
          (let s = (if q < 0 then ''-'' else '''');
               a = \<bar>q\<bar>
           in if 10 ^ 21 \<le> a then s @ big a
              else
                (let n = \<lfloor>a * 1000 + 1 / 2\<rfloor>;
                     m0 = digits n;
                     m = (if length m0 \<le> 3 then replicate (4 - length m0) (CHR ''0'') @ m0 else m0);
                     k = length m
                 in s @ take (k - 3) m @ ''.'' @ drop (k - 3) m)))"

section \<open>Reading numbers\<close>

text \<open>
  \<^verbatim>\<open>String.prototype.trim\<close> on strings of code units below 256, where the white space
  and line terminators are tab, line feed, vertical tab, form feed, carriage return,
  space and no-break space.
\<close>

definition is_space :: "char \<Rightarrow> bool" where
  "is_space c = (c \<in> set [CHR 0x09, CHR 0x0A, CHR 0x0B, CHR 0x0C, CHR 0x0D, CHR 0x20, CHR 0xA0])"

definition trim :: "string \<Rightarrow> string" where
  "trim s = rev (dropWhile is_space (rev (dropWhile is_space s)))"

text \<open>
  The value of a character as a digit (36 for a character that is none) and of a string
  of digits in base \<open>b\<close>.
\<close>

definition is_digit :: "char \<Rightarrow> bool" where
  "is_digit c = (c \<in> set ''0123456789'')"

definition digit_of :: "char \<Rightarrow> int" where
  "digit_of c =
     (if is_digit c then of_char c - 48
      else if c \<in> set ''abcdef'' then of_char c - 87
      else if c \<in> set ''ABCDEF'' then of_char c - 55
      else 36)"

definition value_in :: "int \<Rightarrow> string \<Rightarrow> int" where
  "value_in b s = foldl (\<lambda>n c. b * n + digit_of c) 0 s"

definition digits_in :: "int \<Rightarrow> string \<Rightarrow> bool" where
  "digits_in b s = (s \<noteq> [] \<and> list_all (\<lambda>c. digit_of c < b) s)"

text \<open>
  The binary64 value nearest to a rational, ties to the even significand: the
  significand has 53 bits, the exponent of its last bit is at least \<open>-1074\<close>, and a
  result of \<open>2\<^sup>1\<^sup>0\<^sup>2\<^sup>4\<close> or more (of exponent 1024 or more) is an infinity. \<open>bitlen\<close> is the number of bits of a positive
  integer, \<open>floor_log2 a\<close> the exponent \<open>k\<close> with \<open>2\<^sup>k \<le> a < 2\<^sup>k\<^sup>+\<^sup>1\<close>.
\<close>

definition pow :: "rat \<Rightarrow> int \<Rightarrow> rat" where
  "pow b k = (if 0 \<le> k then b ^ nat k else 1 / b ^ nat (- k))"

function bitlen :: "int \<Rightarrow> int" where
  "bitlen n = (if n \<le> 0 then 0 else 1 + bitlen (n div 2))"
  by pat_completeness auto
termination
  by (relation "measure nat") auto

declare bitlen.simps [simp del]

definition floor_log2 :: "rat \<Rightarrow> int" where
  "floor_log2 a =
     (let k = bitlen (fst (quotient_of a)) - bitlen (snd (quotient_of a))
      in if pow 2 k \<le> a then k else k - 1)"

definition round_half_even :: "rat \<Rightarrow> int" where
  "round_half_even r =
     (let f = \<lfloor>r\<rfloor>; d = r - of_int f
      in if d < 1 / 2 then f else if 1 / 2 < d then f + 1 else if even f then f else f + 1)"

definition binary64 :: "rat \<Rightarrow> jsnum" where
  "binary64 q =
     (if q = 0 then Fin 0
      else
        (let a = \<bar>q\<bar>;
             e = max (floor_log2 a - 52) (- 1074);
             m = round_half_even (a / pow 2 e);
             v = of_int m * pow 2 e
         in if 1024 \<le> floor_log2 v then (if q < 0 then NegInf else PosInf)
            else Fin (if q < 0 then - v else v)))"

text \<open>
  \<^verbatim>\<open>StringToNumber\<close>, the conversion that \<^verbatim>\<open>Number\<close> applies to a string, on strings of
  code units below 256: the string is trimmed; the empty string is 0; \<^verbatim>\<open>0x\<close>, \<^verbatim>\<open>0o\<close>
  and \<^verbatim>\<open>0b\<close> (in either case) start an unsigned integer in base 16, 8 and 2; any other
  string is an optional sign followed by \<^verbatim>\<open>Infinity\<close> or by a decimal literal (digits
  with an optional point, at least one digit, and an optional exponent part); every
  other string is \<open>NaN\<close>. The mathematical value is rounded to binary64. (ECMAScript
  lets an implementation cut a decimal literal after its 20th significant digit; the
  model, like V8, rounds the whole literal.)
\<close>

definition decimal_value :: "string \<Rightarrow> rat option" where
  "decimal_value u =
     (let is_e = (\<lambda>c. c = CHR ''e'' \<or> c = CHR ''E'');
          mant = takeWhile (\<lambda>c. \<not> is_e c) u;
          ex = dropWhile (\<lambda>c. \<not> is_e c) u;
          ip = takeWhile (\<lambda>c. c \<noteq> CHR ''.'') mant;
          fp = drop 1 (dropWhile (\<lambda>c. c \<noteq> CHR ''.'') mant);
          es = drop 1 ex;
          ed = (if take 1 es = ''-'' \<or> take 1 es = ''+'' then drop 1 es else es);
          en = (if ex = [] then 0 else if take 1 es = ''-'' then - value_in 10 ed else value_in 10 ed)
      in if list_all is_digit ip \<and> list_all is_digit fp \<and> (ip \<noteq> [] \<or> fp \<noteq> []) \<and>
            (ex = [] \<or> digits_in 10 ed)
         then Some (of_int (value_in 10 (ip @ fp)) * pow 10 (en - int (length fp)))
         else None)"

definition StringToNumber :: "string \<Rightarrow> jsnum" where
  "StringToNumber s =
     (let t = trim s;
          radix = (if take 2 t = ''0x'' \<or> take 2 t = ''0X'' then 16
                   else if take 2 t = ''0o'' \<or> take 2 t = ''0O'' then 8
                   else if take 2 t = ''0b'' \<or> take 2 t = ''0B'' then 2
                   else 10);
          neg = (take 1 t = ''-'');
          u = (if neg \<or> take 1 t = ''+'' then drop 1 t else t)
      in if t = [] then Fin 0
         else if radix \<noteq> 10
         then (if digits_in radix (drop 2 t) then binary64 (of_int (value_in radix (drop 2 t)))
               else NaN)
         else if u = ''Infinity'' then (if neg then NegInf else PosInf)
         else (case decimal_value u of
                 None \<Rightarrow> NaN
               | Some q \<Rightarrow> binary64 (if neg then - q else q)))"

section \<open>The weather cache key\<close>

text \<open>
  Line 49:
  \<^verbatim>\<open>const key = `${Number(lat).toFixed(3)},${Number(lon).toFixed(3)},${units},${lang}`;\<close>
  The arguments \<open>la\<close> and \<open>lo\<close> are the values of \<^verbatim>\<open>Number(lat)\<close> and \<^verbatim>\<open>Number(lon)\<close>.
\<close>

definition weatherKey :: "(rat \<Rightarrow> string) \<Rightarrow> jsnum \<Rightarrow> jsnum \<Rightarrow> string \<Rightarrow> string \<Rightarrow> string" where
  "weatherKey big la lo units lang =
     toFixed3 big la @ '','' @ toFixed3 big lo @ '','' @ units @ '','' @ lang"

text \<open>
  \<^verbatim>\<open>Number::toString\<close> (radix 10) prints the shortest digits that read back as the same
  binary64 value. For an integer of magnitude below \<open>2\<^sup>5\<^sup>3\<close> these are its decimal
  digits; the printing of any other finite value is left to the parameter \<open>big\<close>.
\<close>

definition num_toString :: "(rat \<Rightarrow> string) \<Rightarrow> jsnum \<Rightarrow> string" where
  "num_toString big x =
     (case x of
        NaN \<Rightarrow> ''NaN''
      | PosInf \<Rightarrow> ''Infinity''
      | NegInf \<Rightarrow> ''-Infinity''
      | Fin q \<Rightarrow>
          (if q = of_int \<lfloor>q\<rfloor> \<and> \<bar>q\<bar> < 2 ^ 53
           then (if q < 0 then ''-'' else '''') @ digits \<bar>\<lfloor>q\<rfloor>\<bar>
           else big q))"

section \<open>The runtime\<close>

text \<open>
  What the handlers take from outside the repository: the built-ins the model does not
  compute (\<^verbatim>\<open>Number\<close> on a string, the printing of a number that is not a small
  integer, \<^verbatim>\<open>String\<close> of an object, \<^verbatim>\<open>JSON.stringify\<close>) and the process environment
  (\<^verbatim>\<open>process.env.OPENWEATHER_API_KEY\<close>; whether \<^verbatim>\<open>ai\<close> was created at start-up, lines
  127-130).
\<close>

record runtime =
  Number_str :: "string \<Rightarrow> jsnum"
  big_toString :: "rat \<Rightarrow> string"
  String_obj :: "jsval \<Rightarrow> string"
  JSON_stringify :: "jsval \<Rightarrow> string"
  OPENWEATHER_API_KEY :: "string option"
  ai :: bool

text \<open>ToString, as a template literal applies it.\<close>

definition toStr :: "runtime \<Rightarrow> jsval \<Rightarrow> string" where
  "toStr R v =
     (case v of
        Undefined \<Rightarrow> ''undefined''
      | Null \<Rightarrow> ''null''
      | Bool b \<Rightarrow> (if b then ''true'' else ''false'')
      | Num n \<Rightarrow> num_toString (big_toString R) n
      | Str s \<Rightarrow> s
      | _ \<Rightarrow> String_obj R v)"

text \<open>\<^verbatim>\<open>e?.message ?? String(e)\<close>, the \<^verbatim>\<open>details\<close> of a caught exception.\<close>

definition details :: "runtime \<Rightarrow> jsval \<Rightarrow> jsval" where
  "details R e =
     (let m = opt_get e ''message''
      in if m = Undefined \<or> m = Null then Str (toStr R e) else m)"

text \<open>A query parameter or environment variable is falsy when absent or empty.\<close>

fun present :: "string option \<Rightarrow> bool" where
  "present None = False"
| "present (Some s) = (s \<noteq> [])"

section \<open>The weather proxy\<close>

text \<open>
  \<^verbatim>\<open>req.query\<close>: each parameter is absent or a string. (A parameter given twice, which
  Express parses into an array, is outside the model.)
\<close>

record query =
  lat :: "string option"
  lon :: "string option"
  units :: "string option"
  lang :: "string option"

record response =
  status :: nat
  headers :: "(string \<times> string) list"
  body :: jsval

text \<open>\<^verbatim>\<open>weatherCache\<close> entries, \<^verbatim>\<open>{ ts, data }\<close>.\<close>

record entry =
  ts :: int
  data :: jsval

text \<open>
  The \<^verbatim>\<open>Map\<close>: its entries in insertion order. \<^verbatim>\<open>get\<close> answers with the entry of the
  key, \<^verbatim>\<open>set\<close> replaces the value of a key the map has and appends a new key.
\<close>

type_synonym cache = "(string \<times> entry) list"

fun Map_get :: "cache \<Rightarrow> string \<Rightarrow> entry option" where
  "Map_get [] k = None"
| "Map_get ((k', e) # m) k = (if k' = k then Some e else Map_get m k)"

fun Map_set :: "string \<Rightarrow> entry \<Rightarrow> cache \<Rightarrow> cache" where
  "Map_set k e [] = [(k, e)]"
| "Map_set k e ((k', e') # m) = (if k' = k then (k, e) # m else (k', e') # Map_set k e m)"

text \<open>
  What \<^verbatim>\<open>await fetch(url)\<close> resolves to, as far as the handler reads it: \<^verbatim>\<open>r.ok\<close>,
  \<^verbatim>\<open>r.status\<close>, and the outcome of \<^verbatim>\<open>await r.json()\<close>.
\<close>

record upstream =
  ok :: bool
  r_status :: nat
  r_json :: "jsval outcome_of"

text \<open>What a handler did besides answering, in order.\<close>

datatype effect = CacheGet string | CacheSet string | Fetch string

fun is_Fetch :: "effect \<Rightarrow> bool" where
  "is_Fetch (Fetch u) = True"
| "is_Fetch e = False"

definition WEATHER_TTL_MS :: int where
  "WEATHER_TTL_MS = 60000"

text \<open>
  \<^verbatim>\<open>res.status(st).json(v)\<close>. Express sends no body with the status 204 or 304; the
  response then has the body \<open>Undefined\<close>. (Express from 4.18 on does the same with
  205; no theorem below speaks of a body sent with 205.)
\<close>

definition json :: "nat \<Rightarrow> jsval \<Rightarrow> response" where
  "json st v =
     \<lparr>status = st, headers = [], body = (if st = 204 \<or> st = 304 then Undefined else v)\<rparr>"

text \<open>Lines 53-54 and 66-67: the payload with the cache-control hint, status 200.\<close>

definition hinted :: "jsval \<Rightarrow> response" where
  "hinted v =
     \<lparr>status = 200,
      headers = [(''Cache-Control'', ''public, max-age=30, stale-while-revalidate=120'')],
      body = v\<rparr>"

definition weather_failed :: "runtime \<Rightarrow> jsval \<Rightarrow> response" where
  "weather_failed R e =
     json 500 (Obj [(''error'', Str ''Weather fetch failed''), (''details'', details R e)])"

definition default_to :: "string \<Rightarrow> string option \<Rightarrow> string" where
  "default_to d v = (case v of None \<Rightarrow> d | Some s \<Rightarrow> s)"

definition key_of :: "runtime \<Rightarrow> query \<Rightarrow> string" where
  "key_of R q =
     weatherKey (big_toString R)
       (Number_str R (default_to [] (lat q))) (Number_str R (default_to [] (lon q)))
       (default_to ''metric'' (units q)) (default_to ''en'' (lang q))"

definition url_of :: "runtime \<Rightarrow> query \<Rightarrow> string" where
  "url_of R q =
     ''https://api.openweathermap.org/data/2.5/weather?lat='' @ default_to [] (lat q)
       @ ''&lon='' @ default_to [] (lon q)
       @ ''&units='' @ default_to ''metric'' (units q)
       @ ''&lang='' @ default_to ''en'' (lang q)
       @ ''&appid='' @ default_to [] (OPENWEATHER_API_KEY R)"

text \<open>
  Lines 51-52, \<^verbatim>\<open>cached && now - cached.ts < WEATHER_TTL_MS\<close>: the entry of the key,
  when the cache has one and it is younger than the TTL.
\<close>

definition fresh_entry :: "cache \<Rightarrow> string \<Rightarrow> int \<Rightarrow> entry option" where
  "fresh_entry cache key now =
     (case Map_get cache key of
        None \<Rightarrow> None
      | Some cached \<Rightarrow> if now - ts cached < WEATHER_TTL_MS then Some cached else None)"

text \<open>
  \<^verbatim>\<open>app.get("/api/weather", ...)\<close>, lines 39-71. \<open>fetch\<close> is the upstream as this request
  finds it (a rejected promise is \<open>Throws\<close>), \<open>now\<close> is \<^verbatim>\<open>Date.now()\<close>. The result is
  the cache after the request, the response, and the effects. \<open>key_of\<close> and \<open>url_of\<close>
  are only evaluated past the two guards, where \<^verbatim>\<open>lat\<close>, \<^verbatim>\<open>lon\<close> and the API key are
  non-empty strings. Both ways in which line 58 or 59 can throw end in the
  \<^verbatim>\<open>catch\<close> of line 68. A request is one step of the model: other requests that
  run while this one awaits the upstream are not interleaved with it.
\<close>

definition weather ::
  "runtime \<Rightarrow> (string \<Rightarrow> upstream outcome_of) \<Rightarrow> int \<Rightarrow> cache \<Rightarrow> query
     \<Rightarrow> cache \<times> response \<times> effect list" where
  "weather R fetch now cache q =
     (if \<not> present (lat q) \<or> \<not> present (lon q)
      then (cache, json 400 (Obj [(''error'', Str ''lat and lon are required'')]), [])
      else if \<not> present (OPENWEATHER_API_KEY R)
      then (cache,
            json 500 (Obj [(''error'', Str ''OPENWEATHER_API_KEY missing in server/.env'')]), [])
      else
        (let key = key_of R q
         in case fresh_entry cache key now of
              Some cached \<Rightarrow> (cache, hinted (data cached), [CacheGet key])
            | None \<Rightarrow>
                (let url = url_of R q
                 in case fetch url of
                      Throws e \<Rightarrow> (cache, weather_failed R e, [CacheGet key, Fetch url])
                    | Returns r \<Rightarrow>
                        (case r_json r of
                           Throws e \<Rightarrow> (cache, weather_failed R e, [CacheGet key, Fetch url])
                         | Returns d \<Rightarrow>
                             if \<not> ok r
                             then (cache, json (r_status r) d, [CacheGet key, Fetch url])
                             else (Map_set key \<lparr>ts = now, data = d\<rparr> cache, hinted d,
                                   [CacheGet key, Fetch url, CacheSet key])))))"

text \<open>
  The caches the server can hold: the empty \<^verbatim>\<open>Map\<close> of start-up, and every cache a
  request leaves behind, whatever the request, the clock and the upstream were. The
  environment does not change while the process runs.
\<close>

inductive reachable :: "runtime \<Rightarrow> cache \<Rightarrow> bool" for R :: runtime where
  start: "reachable R []"
| request: "reachable R c \<Longrightarrow> weather R fetch now c q = (c', res, effs) \<Longrightarrow> reachable R c'"

section \<open>Crops and to-dos\<close>










text \<open>
  What \<^verbatim>\<open>makeId\<close> (line 79) draws from the runtime: where
  \<^verbatim>\<open>globalThis.crypto.randomUUID\<close> exists, the UUID it returns; elsewhere the string
  \<^verbatim>\<open>Math.random().toString(36)\<close>, which is \<^verbatim>\<open>"0"\<close> when \<^verbatim>\<open>Math.random()\<close> returns 0 and
  \<^verbatim>\<open>"0."\<close> followed by the base-36 digits of the fraction otherwise.
  \<^verbatim>\<open>slice(2)\<close> drops the first two characters.
\<close>

datatype id_source = RandomUUID string | MathRandom string

fun makeId :: "id_source \<Rightarrow> string" where
  "makeId (RandomUUID u) = u"
| "makeId (MathRandom s) = drop 2 s"

text \<open>
  A destructuring pattern \<^verbatim>\<open>{ k = d } = req.body || {}\<close>: the property \<open>k\<close> of the
  body (of the empty object when the body is falsy), \<open>d\<close> when that is \<^verbatim>\<open>undefined\<close>.
\<close>

definition field_or :: "jsval \<Rightarrow> jsval \<Rightarrow> string \<Rightarrow> jsval" where
  "field_or d b k =
     (let v = opt_get (if truthy b then b else Obj []) k
      in if v = Undefined then d else v)"

text \<open>\<^verbatim>\<open>app.post("/api/crops", ...)\<close>, lines 83-88: the new \<^verbatim>\<open>crops\<close> and the response.\<close>

definition post_crop :: "id_source \<Rightarrow> obj list \<Rightarrow> jsval \<Rightarrow> obj list \<times> response" where
  "post_crop src crops b =
     (let name = field_or (Str ''Crop'') b ''name'';
          variety = field_or (Str []) b ''variety'';
          c = [(''id'', Str (makeId src)), (''name'', name), (''variety'', variety)]
      in (crops @ [c], json 201 (Obj c)))"

section \<open>The chat relay\<close>

text \<open>\<^verbatim>\<open>a && b\<close> and \<^verbatim>\<open>typeof\<close>.\<close>

definition js_and :: "jsval \<Rightarrow> jsval \<Rightarrow> jsval" where
  "js_and a b = (if truthy a then b else a)"

fun js_typeof :: "jsval \<Rightarrow> string" where
  "js_typeof Undefined = ''undefined''"
| "js_typeof Null = ''object''"
| "js_typeof (Bool b) = ''boolean''"
| "js_typeof (Num n) = ''number''"
| "js_typeof (Str s) = ''string''"
| "js_typeof (Arr xs) = ''object''"
| "js_typeof (Obj kvs) = ''object''"
| "js_typeof (Fun c) = ''function''"

text \<open>\<^verbatim>\<open>Array.prototype.join\<close> on strings.\<close>

fun join :: "string \<Rightarrow> string list \<Rightarrow> string" where
  "join sep [] = []"
| "join sep [x] = x"
| "join sep (x # y # ys) = x @ sep @ join sep (y # ys)"

text \<open>
  Lines 139-144: the elements of the array literal after the preamble, then the array
  after \<^verbatim>\<open>.filter(Boolean)\<close>, which drops the empty strings.
\<close>

definition crop_line :: "runtime \<Rightarrow> jsval \<Rightarrow> string" where
  "crop_line R crop = (if truthy crop then ''Crop: '' @ toStr R crop else [])"

definition coords_line :: "runtime \<Rightarrow> jsval \<Rightarrow> string" where
  "coords_line R coords =
     (if truthy (js_and (opt_get coords ''lat'') (opt_get coords ''lon''))
      then ''Coords: '' @ toStr R (opt_get coords ''lat'') @ '','' @ toStr R (opt_get coords ''lon'')
      else [])"

definition weather_line :: "runtime \<Rightarrow> jsval \<Rightarrow> string" where
  "weather_line R w = (if truthy w then ''Weather: '' @ JSON_stringify R w else [])"

definition contextLines :: "runtime \<Rightarrow> jsval \<Rightarrow> jsval \<Rightarrow> jsval \<Rightarrow> string list" where
  "contextLines R crop coords w =
     filter (\<lambda>s. s \<noteq> [])
       [''You are a helpful farming assistant.'',
        crop_line R crop, coords_line R coords, weather_line R w]"

text \<open>Lines 137-146: the prompt built from the request body.\<close>

definition prompt_of :: "runtime \<Rightarrow> jsval \<Rightarrow> string" where
  "prompt_of R b =
     (let message = field_or (Str []) b ''message'';
          crop = field_or (Str []) b ''crop'';
          coords = field_or Null b ''coords'';
          w = field_or Null b ''weather''
      in trim (join '' | '' (contextLines R crop coords w)
               @ [CHR 0x0A] @ ''User: '' @ toStr R message))"

text \<open>
  Lines 155-158. \<^verbatim>\<open>result?.text\<close>, \<^verbatim>\<open>result?.response?.text\<close>, a call without
  arguments (of a value that is not callable: a \<^verbatim>\<open>TypeError\<close>), and the chain
  \<^verbatim>\<open>(... && ...) || (... && ...) || "No reply."\<close>, which evaluates the call only when the
  first operand is falsy and the callable is there.
\<close>

definition text_field :: "jsval \<Rightarrow> jsval" where
  "text_field result = opt_get result ''text''"

definition text_method :: "jsval \<Rightarrow> jsval" where
  "text_method result = opt_get (opt_get result ''response'') ''text''"

fun call :: "jsval \<Rightarrow> jsval outcome_of" where
  "call (Fun c) = c"
| "call v = Throws (Obj [(''name'', Str ''TypeError'')])"

definition reply_text :: "jsval \<Rightarrow> jsval outcome_of" where
  "reply_text result =
     (let first = js_and (Bool (js_typeof (text_field result) = ''string'')) (text_field result)
      in if truthy first then Returns first
         else if js_typeof (text_method result) = ''function''
         then (case call (text_method result) of
                 Throws e \<Rightarrow> Throws e
               | Returns v \<Rightarrow> if truthy v then Returns v else Returns (Str ''No reply.''))
         else Returns (Str ''No reply.''))"

definition gemini_failed :: "runtime \<Rightarrow> jsval \<Rightarrow> response" where
  "gemini_failed R e =
     json 500 (Obj [(''error'', Str ''Gemini error''), (''details'', details R e)])"

text \<open>
  \<^verbatim>\<open>app.post("/api/gemini-chat", ...)\<close>, lines 132-163. \<open>generate\<close> is
  \<^verbatim>\<open>ai.models.generateContent\<close> as a function of the prompt (the model name is fixed).
  The result is the response and the prompts sent upstream.
\<close>

definition gemini_chat ::
  "runtime \<Rightarrow> (string \<Rightarrow> jsval outcome_of) \<Rightarrow> jsval \<Rightarrow> response \<times> string list" where
  "gemini_chat R generate b =
     (if \<not> ai R
      then (json 500 (Obj [(''error'', Str ''GEMINI_API_KEY missing in server/.env'')]), [])
      else
        (let prompt = prompt_of R b
         in case generate prompt of
              Throws e \<Rightarrow> (gemini_failed R e, [prompt])
            | Returns result \<Rightarrow>
                (case reply_text result of
                   Throws e \<Rightarrow> (gemini_failed R e, [prompt])
                 | Returns t \<Rightarrow> (json 200 (Obj [(''reply'', t)]), [prompt]))))"

section \<open>An instance of the runtime for the examples\<close>

text \<open>
  The examples run with \<open>StringToNumber\<close> for \<^verbatim>\<open>Number\<close>, with the API key set and
  with \<^verbatim>\<open>ai\<close> created. The printing built-ins of the instance are placeholders: no
  example prints a number that is not a small integer, or an object.
\<close>

definition example_runtime :: runtime where
  "example_runtime =
     \<lparr>Number_str = StringToNumber,
      big_toString = (\<lambda>q. ''?''),
      String_obj = (\<lambda>v. ''[object Object]''),
      JSON_stringify = (\<lambda>v. ''?''),
      OPENWEATHER_API_KEY = Some ''0123456789abcdef0123456789abcdef'',
      ai = True\<rparr>"

text \<open>
  For the cache-key theorem. \<open>cell x\<close> is the integer that \<^verbatim>\<open>toFixed(3)\<close> prints for a
  finite \<open>x\<close> of magnitude below \<open>10\<^sup>2\<^sup>1\<close>: the number of thousandths nearest to the
  magnitude, the larger one on a tie. \<open>in_cell n x\<close> says which magnitudes these are:
  within half a thousandth of \<open>n / 1000\<close>, the lower end included and the upper end
  excluded. \<open>fixed3 n\<close> is what is printed for \<open>n\<close> after the sign.
\<close>

definition cell :: "rat \<Rightarrow> int" where
  "cell x = \<lfloor>\<bar>x\<bar> * 1000 + 1 / 2\<rfloor>"

definition in_cell :: "int \<Rightarrow> rat \<Rightarrow> bool" where
  "in_cell n x = (of_int n / 1000 - 1 / 2000 \<le> \<bar>x\<bar> \<and> \<bar>x\<bar> < of_int n / 1000 + 1 / 2000)"

definition fixed3 :: "int \<Rightarrow> string" where
  "fixed3 n =
     (let m0 = digits n;
          m = (if length m0 \<le> 3 then replicate (4 - length m0) (CHR ''0'') @ m0 else m0);
          k = length m
      in take (k - 3) m @ ''.'' @ drop (k - 3) m)"

text \<open>
  Example requests and upstream answers. The two latitudes are binary64 values
  \<open>1 / 8192\<close> apart that round to the same thousandth.
\<close>

definition request_a :: query where
  "request_a = \<lparr>lat = Some ''12.25'', lon = Some ''-77.5'', units = None, lang = None\<rparr>"

definition request_b :: query where
  "request_b = \<lparr>lat = Some ''12.2501220703125'', lon = Some ''-77.5'', units = None, lang = None\<rparr>"

definition upstream_fine :: "string \<Rightarrow> upstream outcome_of" where
  "upstream_fine u =
     Returns \<lparr>ok = True, r_status = 200, r_json = Returns (Obj [(''name'', Str ''Lima'')])\<rparr>"

definition upstream_cloudy :: "string \<Rightarrow> upstream outcome_of" where
  "upstream_cloudy u =
     Returns \<lparr>ok = True, r_status = 200, r_json = Returns (Obj [(''name'', Str ''Callao'')])\<rparr>"

definition upstream_unauthorized :: "string \<Rightarrow> upstream outcome_of" where
  "upstream_unauthorized u =
     Returns \<lparr>ok = False, r_status = 401,
       r_json = Returns (Obj [(''cod'', Num (Fin 401)), (''message'', Str ''Invalid API key'')])\<rparr>"

definition upstream_bad_gateway :: "string \<Rightarrow> upstream outcome_of" where
  "upstream_bad_gateway u =
     Returns \<lparr>ok = False, r_status = 502,
       r_json = Throws (Obj [(''name'', Str ''SyntaxError''),
                             (''message'', Str ''Unexpected token < in JSON at position 0'')])\<rparr>"

definition upstream_down :: "string \<Rightarrow> upstream outcome_of" where
  "upstream_down u = Throws (Obj [(''message'', Str ''fetch failed'')])"

section \<open>Auxiliary facts\<close>

lemma Map_get_set: "Map_get (Map_set k e m) k' = (if k' = k then Some e else Map_get m k')"
  by (induction m) auto

lemma keys_Map_set: "fst ` set (Map_set k e m) = insert k (fst ` set m)"
proof (induction m)
  case Nil
  show ?case by simp
next
  case (Cons p m)
  obtain k' e' where p: "p = (k', e')" by (cases p)
  show ?case using Cons by (simp add: p insert_commute)
qed

lemma distinct_Map_set: "distinct (map fst m) \<Longrightarrow> distinct (map fst (Map_set k e m))"
  by (induction m) (auto simp: keys_Map_set)

lemma count_key: "distinct (map fst m) \<Longrightarrow> Map_get m k = Some e
   \<Longrightarrow> length (filter (\<lambda>p. fst p = k) m) = 1"
  by (induction m) (force split: if_splits simp: filter_empty_conv)+

lemma weather_cache_cases:
  assumes "weather R fetch now c q = (c', res, effs)"
  shows "c' = c \<or> (present (OPENWEATHER_API_KEY R) \<and> (\<exists>d. c' = Map_set (key_of R q) \<lparr>ts = now, data = d\<rparr> c))"
  using assms by (auto simp: weather_def fresh_entry_def Let_def split: if_splits outcome.splits option.splits)

lemma Map_set_not_Nil: "Map_set k e m \<noteq> []"
  by (cases m) (auto split: if_splits)

lemma reachable_inv:
  "reachable R c \<Longrightarrow> distinct (map fst c) \<and> (c \<noteq> [] \<longrightarrow> present (OPENWEATHER_API_KEY R))"
proof (induction rule: reachable.induct)
  case start
  show ?case by simp
next
  case (request c fetch now q c' res effs)
  from weather_cache_cases [OF request.hyps(2)] request.IH show ?case
    by (auto simp: distinct_Map_set)
qed

lemma hinted_not_json [simp]: "json st v \<noteq> hinted d" "hinted d \<noteq> json st v"
  by (simp_all add: json_def hinted_def)

lemma hinted_inject [simp]: "(hinted v = hinted d) = (v = d)"
  by (simp add: hinted_def)

lemma weather_fresh:
  assumes "present (lat q)" "present (lon q)" "present (OPENWEATHER_API_KEY R)"
      and "Map_get c (key_of R q) = Some e" "now - ts e < WEATHER_TTL_MS"
    shows "weather R fetch now c q = (c, hinted (data e), [CacheGet (key_of R q)])"
  using assms by (simp add: weather_def fresh_entry_def)

lemma weather_success:
  assumes "weather R fetch now c q = (c', hinted d, effs)"
  shows "present (OPENWEATHER_API_KEY R) \<and>
         (\<exists>e. Map_get c' (key_of R q) = Some e \<and> data e = d \<and>
              (Fetch (url_of R q) \<in> set effs \<longrightarrow> ts e = now))"
  using assms
  by (auto simp: weather_def fresh_entry_def weather_failed_def Let_def Map_get_set
           split: if_splits outcome.splits option.splits)

lemma length_Map_set: "Map_get m k = Some e \<Longrightarrow> length (Map_set k e' m) = length m"
  by (induction m) (auto split: if_splits)

lemma weather_upstream:
  assumes "present (lat q)" "present (lon q)" "present (OPENWEATHER_API_KEY R)"
      and "\<And>e. Map_get c (key_of R q) = Some e \<Longrightarrow> \<not> now - ts e < WEATHER_TTL_MS"
    shows "weather R fetch now c q =
      (case fetch (url_of R q) of
         Throws x \<Rightarrow> (c, weather_failed R x, [CacheGet (key_of R q), Fetch (url_of R q)])
       | Returns r \<Rightarrow>
           (case r_json r of
              Throws x \<Rightarrow> (c, weather_failed R x, [CacheGet (key_of R q), Fetch (url_of R q)])
            | Returns d \<Rightarrow>
                if \<not> ok r
                then (c, json (r_status r) d, [CacheGet (key_of R q), Fetch (url_of R q)])
                else (Map_set (key_of R q) \<lparr>ts = now, data = d\<rparr> c, hinted d,
                      [CacheGet (key_of R q), Fetch (url_of R q), CacheSet (key_of R q)])))"
  using assms by (cases "Map_get c (key_of R q)") (simp_all add: weather_def fresh_entry_def Let_def)

lemma ex_key_a: "key_of example_runtime request_a = ''12.250,-77.500,metric,en''"
  by code_simp

lemma ex_key_b: "key_of example_runtime request_b = ''12.250,-77.500,metric,en''"
  by code_simp

lemma ex_present:
  "present (lat request_a)" "present (lon request_a)"
  "present (lat request_b)" "present (lon request_b)"
  "present (OPENWEATHER_API_KEY example_runtime)"
  by (simp_all add: request_a_def request_b_def example_runtime_def)

lemma ex_first:
  "weather example_runtime upstream_fine 1000 [] request_a =
     ([(''12.250,-77.500,metric,en'', \<lparr>ts = 1000, data = Obj [(''name'', Str ''Lima'')]\<rparr>)],
      hinted (Obj [(''name'', Str ''Lima'')]),
      [CacheGet ''12.250,-77.500,metric,en'',
       Fetch (url_of example_runtime request_a),
       CacheSet ''12.250,-77.500,metric,en''])"
proof -
  have "weather example_runtime upstream_fine 1000 [] request_a =
      (case upstream_fine (url_of example_runtime request_a) of
         Throws x \<Rightarrow> ([], weather_failed example_runtime x,
            [CacheGet (key_of example_runtime request_a), Fetch (url_of example_runtime request_a)])
       | Returns r \<Rightarrow>
           (case r_json r of
              Throws x \<Rightarrow> ([], weather_failed example_runtime x,
                [CacheGet (key_of example_runtime request_a),
                 Fetch (url_of example_runtime request_a)])
            | Returns d \<Rightarrow>
                if \<not> ok r
                then ([], json (r_status r) d,
                      [CacheGet (key_of example_runtime request_a),
                       Fetch (url_of example_runtime request_a)])
                else (Map_set (key_of example_runtime request_a) \<lparr>ts = 1000, data = d\<rparr> [],
                      hinted d,
                      [CacheGet (key_of example_runtime request_a),
                       Fetch (url_of example_runtime request_a),
                       CacheSet (key_of example_runtime request_a)])))"
    by (rule weather_upstream [OF ex_present(1,2,5)]) simp
  then show ?thesis by (simp add: upstream_fine_def ex_key_a)
qed

lemma ex_cache_reachable:
  "reachable example_runtime
     [(''12.250,-77.500,metric,en'', \<lparr>ts = 1000, data = Obj [(''name'', Str ''Lima'')]\<rparr>)]"
  by (rule reachable.request [OF reachable.start ex_first])

lemma ex_unauthorized:
  "weather example_runtime upstream_unauthorized 1000 [] request_a =
     ([], json 401 (Obj [(''cod'', Num (Fin 401)), (''message'', Str ''Invalid API key'')]),
      [CacheGet ''12.250,-77.500,metric,en'', Fetch (url_of example_runtime request_a)])"
proof -
  have "weather example_runtime upstream_unauthorized 1000 [] request_a =
      (case upstream_unauthorized (url_of example_runtime request_a) of
         Throws x \<Rightarrow> ([], weather_failed example_runtime x,
            [CacheGet (key_of example_runtime request_a), Fetch (url_of example_runtime request_a)])
       | Returns r \<Rightarrow>
           (case r_json r of
              Throws x \<Rightarrow> ([], weather_failed example_runtime x,
                [CacheGet (key_of example_runtime request_a),
                 Fetch (url_of example_runtime request_a)])
            | Returns d \<Rightarrow>
                if \<not> ok r
                then ([], json (r_status r) d,
                      [CacheGet (key_of example_runtime request_a),
                       Fetch (url_of example_runtime request_a)])
                else (Map_set (key_of example_runtime request_a) \<lparr>ts = 1000, data = d\<rparr> [],
                      hinted d,
                      [CacheGet (key_of example_runtime request_a),
                       Fetch (url_of example_runtime request_a),
                       CacheSet (key_of example_runtime request_a)])))"
    by (rule weather_upstream [OF ex_present(1,2,5)]) simp
  then show ?thesis by (simp add: upstream_unauthorized_def ex_key_a)
qed











lemma cell_in_cell: "(cell x = n) = in_cell n x"
  unfolding cell_def in_cell_def floor_eq_iff by (auto simp: field_simps)

lemma cell_nonneg: "0 \<le> cell x"
  by (simp add: cell_def)

lemma toFixed3_Fin:
  "\<bar>q\<bar> < 10 ^ 21 \<Longrightarrow> toFixed3 big (Fin q) = (if q < 0 then ''-'' else []) @ fixed3 (cell q)"
  by (simp add: toFixed3_def fixed3_def cell_def Let_def)

lemma is_digit_other:
  "is_digit c \<Longrightarrow> c \<noteq> CHR ''.'' \<and> c \<noteq> CHR '','' \<and> c \<noteq> CHR ''-''"
  by (auto simp: is_digit_def)

lemma digit_of_digit:
  assumes "0 \<le> d" "d < 10"
  shows "digit_of (digit d) = d \<and> is_digit (digit d)"
proof -
  from assms have "d = 0 \<or> d = 1 \<or> d = 2 \<or> d = 3 \<or> d = 4 \<or> d = 5 \<or> d = 6 \<or> d = 7 \<or> d = 8 \<or> d = 9"
    by arith
  then show ?thesis
    by (elim disjE) (simp_all add: digit_def digit_of_def is_digit_def)
qed

lemma value_in_snoc: "value_in b (s @ [c]) = b * value_in b s + digit_of c"
  by (simp add: value_in_def)

lemma digits_props:
  "0 \<le> n \<Longrightarrow> list_all is_digit (digits n) \<and> value_in 10 (digits n) = n \<and> digits n \<noteq> []"
proof (induction n rule: digits.induct)
  case (1 n)
  show ?case
  proof (cases "n < 10")
    case True
    then have "digits n = [digit n]" by (subst digits.simps) simp
    with digit_of_digit [of n] "1.prems" True show ?thesis
      by (simp add: value_in_def)
  next
    case False
    then have d: "digits n = digits (n div 10) @ [digit (n mod 10)]"
      by (subst digits.simps) simp
    from False "1.prems" have "0 \<le> n div 10" by simp
    with "1.IH" False have ih: "list_all is_digit (digits (n div 10))"
      "value_in 10 (digits (n div 10)) = n div 10"
      by simp_all
    have "digit_of (digit (n mod 10)) = n mod 10 \<and> is_digit (digit (n mod 10))"
      by (rule digit_of_digit) simp_all
    with ih show ?thesis
      by (simp add: d value_in_snoc)
  qed
qed

lemma value_in_zeros: "value_in 10 (replicate j (CHR ''0'') @ m) = value_in 10 m"
proof -
  have "foldl (\<lambda>n c. 10 * n + digit_of c) 0 (replicate j (CHR ''0'')) = 0"
    by (induction j) (simp_all add: digit_of_def is_digit_def)
  then show ?thesis by (simp add: value_in_def)
qed

lemma fixed3_props:
  assumes "0 \<le> n"
  shows "value_in 10 (filter (\<lambda>c. c \<noteq> CHR ''.'') (fixed3 n)) = n"
    and "fixed3 n \<noteq> []"
    and "hd (fixed3 n) \<noteq> CHR ''-''"
    and "CHR '','' \<notin> set (fixed3 n)"
proof -
  define m0 where "m0 = digits n"
  define m where "m = (if length m0 \<le> 3 then replicate (4 - length m0) (CHR ''0'') @ m0 else m0)"
  define j where "j = length m - 3"
  from digits_props [OF assms] have m0: "list_all is_digit m0" "value_in 10 m0 = n" "m0 \<noteq> []"
    by (simp_all add: m0_def)
  have zero: "is_digit (CHR ''0'')" by (simp add: is_digit_def)
  have all: "list_all is_digit m"
    using m0(1) zero by (simp add: m_def list_all_iff)
  have val: "value_in 10 m = n"
    using m0(2) by (simp add: m_def value_in_zeros)
  have len: "4 \<le> length m" by (simp add: m_def)
  then have j: "0 < j" "j < length m" by (simp_all add: j_def)
  have f: "fixed3 n = take j m @ CHR ''.'' # drop j m"
    by (simp add: fixed3_def Let_def m0_def m_def j_def)
  have nodot: "filter (\<lambda>c. c \<noteq> CHR ''.'') m = m"
    using all is_digit_other by (simp add: list_all_iff filter_id_conv)
  have "filter (\<lambda>c. c \<noteq> CHR ''.'') (take j m) @ filter (\<lambda>c. c \<noteq> CHR ''.'') (drop j m) =
      filter (\<lambda>c. c \<noteq> CHR ''.'') (take j m @ drop j m)"
    by (simp only: filter_append)
  then have "filter (\<lambda>c. c \<noteq> CHR ''.'') (fixed3 n) = m"
    by (simp add: f nodot)
  with val show "value_in 10 (filter (\<lambda>c. c \<noteq> CHR ''.'') (fixed3 n)) = n" by simp
  show "fixed3 n \<noteq> []" by (simp add: f)
  from j len have "take j m \<noteq> []" by auto
  then have "hd (fixed3 n) = hd m" by (simp add: f hd_append)
  moreover from len have "m \<noteq> []" by auto
  then have "hd m \<in> set m" by simp
  ultimately show "hd (fixed3 n) \<noteq> CHR ''-''"
    using all is_digit_other by (auto simp: list_all_iff)
  have "set (take j m) \<subseteq> set m" "set (drop j m) \<subseteq> set m"
    by (rule set_take_subset, rule set_drop_subset)
  then show "CHR '','' \<notin> set (fixed3 n)"
    using all is_digit_other by (auto simp: f list_all_iff)
qed

lemma fixed3_inject:
  assumes "0 \<le> n" "0 \<le> k" "fixed3 n = fixed3 k"
  shows "n = k"
proof -
  have "n = value_in 10 (filter (\<lambda>c. c \<noteq> CHR ''.'') (fixed3 n))"
    by (rule fixed3_props(1) [OF assms(1), symmetric])
  also have "\<dots> = value_in 10 (filter (\<lambda>c. c \<noteq> CHR ''.'') (fixed3 k))"
    by (simp only: assms(3))
  also have "\<dots> = k"
    by (rule fixed3_props(1) [OF assms(2)])
  finally show ?thesis .
qed

lemma toFixed3_eq_iff:
  assumes "\<bar>x\<bar> < 10 ^ 21" "\<bar>y\<bar> < 10 ^ 21"
  shows "(toFixed3 big (Fin x) = toFixed3 big (Fin y)) = ((x < 0) = (y < 0) \<and> cell x = cell y)"
proof -
  have minus: "CHR ''-'' # fixed3 (cell a) \<noteq> fixed3 (cell b)" for a b
    using fixed3_props(2,3) [OF cell_nonneg [of b]] by (cases "fixed3 (cell b)") auto
  have inj: "(fixed3 (cell x) = fixed3 (cell y)) = (cell x = cell y)"
    using fixed3_inject [OF cell_nonneg cell_nonneg] by auto
  show ?thesis
    unfolding toFixed3_Fin [OF assms(1)] toFixed3_Fin [OF assms(2)]
    using minus [of x y] minus [of y x] inj
    by auto
qed

lemma toFixed3_no_comma:
  "\<bar>x\<bar> < 10 ^ 21 \<Longrightarrow> CHR '','' \<notin> set (toFixed3 big (Fin x))"
  using fixed3_props(4) [OF cell_nonneg [of x]] by (simp add: toFixed3_Fin)

lemma weatherKey_eq_iff:
  assumes "\<bar>x1\<bar> < 10 ^ 21" "\<bar>x2\<bar> < 10 ^ 21" "\<bar>y1\<bar> < 10 ^ 21" "\<bar>y2\<bar> < 10 ^ 21"
  shows "(weatherKey big (Fin x1) (Fin y1) u l = weatherKey big (Fin x2) (Fin y2) u l) =
         ((x1 < 0) = (x2 < 0) \<and> cell x1 = cell x2 \<and> (y1 < 0) = (y2 < 0) \<and> cell y1 = cell y2)"
proof -
  have "(weatherKey big (Fin x1) (Fin y1) u l = weatherKey big (Fin x2) (Fin y2) u l) =
      (toFixed3 big (Fin x1) = toFixed3 big (Fin x2) \<and>
       toFixed3 big (Fin y1) = toFixed3 big (Fin y2))"
    using toFixed3_no_comma [OF assms(1), of big] toFixed3_no_comma [OF assms(2), of big]
      toFixed3_no_comma [OF assms(3), of big] toFixed3_no_comma [OF assms(4), of big]
    by (simp add: weatherKey_def append_Cons_eq_iff)
  then show ?thesis
    unfolding toFixed3_eq_iff [OF assms(1,2)] toFixed3_eq_iff [OF assms(3,4)]
    by simp
qed

lemma fresh_hit_hinted:
  assumes first: "weather R fetch1 now1 c0 q1 = (c1, hinted d, effs1)"
      and second: "present (lat q2)" "present (lon q2)" "key_of R q2 = key_of R q1"
    shows "\<exists>e. Map_get c1 (key_of R q1) = Some e \<and> data e = d \<and>
             (Fetch (url_of R q1) \<in> set effs1 \<longrightarrow> ts e = now1) \<and>
             (now2 - ts e < 60000 \<longrightarrow>
                weather R fetch2 now2 c1 q2 = (c1, hinted d, [CacheGet (key_of R q1)])) \<and>
             (\<forall>c2 e2. Map_get c2 (key_of R q1) = Some e2 \<and> now2 - ts e2 < 60000 \<longrightarrow>
                weather R fetch2 now2 c2 q2 = (c2, hinted (data e2), [CacheGet (key_of R q1)]))"
proof -
  from weather_success [OF first] obtain e where
    key: "present (OPENWEATHER_API_KEY R)" and
    e: "Map_get c1 (key_of R q1) = Some e" "data e = d"
       "Fetch (url_of R q1) \<in> set effs1 \<longrightarrow> ts e = now1"
    by blast
  have "weather R fetch2 now2 c1 q2 = (c1, hinted d, [CacheGet (key_of R q1)])"
    if "now2 - ts e < 60000"
    using weather_fresh [of q2 R c1 e now2 fetch2] second key e that
    by (simp add: WEATHER_TTL_MS_def)
  moreover have "weather R fetch2 now2 c2 q2 = (c2, hinted (data e2), [CacheGet (key_of R q1)])"
    if "Map_get c2 (key_of R q1) = Some e2" "now2 - ts e2 < 60000" for c2 e2
    using weather_fresh [of q2 R c2 e2 now2 fetch2] second key that
    by (simp add: WEATHER_TTL_MS_def)
  ultimately show ?thesis using e by blast
qed

lemma ex_upstream:
  "weather example_runtime fetch 1000 [] request_a =
      (case fetch (url_of example_runtime request_a) of
         Throws x \<Rightarrow> ([], weather_failed example_runtime x,
            [CacheGet ''12.250,-77.500,metric,en'', Fetch (url_of example_runtime request_a)])
       | Returns r \<Rightarrow>
           (case r_json r of
              Throws x \<Rightarrow> ([], weather_failed example_runtime x,
                [CacheGet ''12.250,-77.500,metric,en'',
                 Fetch (url_of example_runtime request_a)])
            | Returns d \<Rightarrow>
                if \<not> ok r
                then ([], json (r_status r) d,
                      [CacheGet ''12.250,-77.500,metric,en'',
                       Fetch (url_of example_runtime request_a)])
                else (Map_set ''12.250,-77.500,metric,en'' \<lparr>ts = 1000, data = d\<rparr> [],
                      hinted d,
                      [CacheGet ''12.250,-77.500,metric,en'',
                       Fetch (url_of example_runtime request_a),
                       CacheSet ''12.250,-77.500,metric,en''])))"
  unfolding ex_key_a [symmetric]
  by (rule weather_upstream [OF ex_present(1,2,5)]) simp

lemma ex_bad_gateway:
  "weather example_runtime upstream_bad_gateway 1000 [] request_a =
     ([],
      \<lparr>status = 500, headers = [],
        body = Obj [(''error'', Str ''Weather fetch failed''),
                    (''details'', Str ''Unexpected token < in JSON at position 0'')]\<rparr>,
      [CacheGet ''12.250,-77.500,metric,en'', Fetch (url_of example_runtime request_a)])"
  by (simp add: ex_upstream upstream_bad_gateway_def weather_failed_def json_def details_def)

section \<open>The cache key (C1)\<close>

text \<open>
  C1, as the code has it. Take two weather requests with the same unit system and the
  same language, whose \<^verbatim>\<open>lat\<close> and \<^verbatim>\<open>lon\<close> the conversion \<^verbatim>\<open>Number\<close> reads as finite
  numbers of magnitude below \<open>10\<^sup>2\<^sup>1\<close>. Their cache keys are identical exactly when the two
  latitude numbers have the same sign and magnitudes in the same rounding cell, at least
  \<open>n / 1000 - 0.0005\<close> and below \<open>n / 1000 + 0.0005\<close> for one integer \<open>n\<close>, and the two
  longitude numbers likewise. The numbers are the binary64 values \<^verbatim>\<open>Number(lat)\<close> and
  \<^verbatim>\<open>Number(lon)\<close>, not the decimal texts of the parameters: the key rounds each of them
  to three decimals and never compares the two requests.
\<close>

theorem weather_key_same_cell:
  assumes q1: "lat q1 = Some la1" "lon q1 = Some lo1"
      and q2: "lat q2 = Some la2" "lon q2 = Some lo2"
      and num: "Number_str R la1 = Fin x1" "Number_str R lo1 = Fin y1"
               "Number_str R la2 = Fin x2" "Number_str R lo2 = Fin y2"
      and bound: "\<bar>x1\<bar> < 10 ^ 21" "\<bar>x2\<bar> < 10 ^ 21" "\<bar>y1\<bar> < 10 ^ 21" "\<bar>y2\<bar> < 10 ^ 21"
      and same: "default_to ''metric'' (units q1) = default_to ''metric'' (units q2)"
                "default_to ''en'' (lang q1) = default_to ''en'' (lang q2)"
    shows "(key_of R q1 = key_of R q2) =
           ((x1 < 0) = (x2 < 0) \<and> (\<exists>n. in_cell n x1 \<and> in_cell n x2) \<and>
            (y1 < 0) = (y2 < 0) \<and> (\<exists>m. in_cell m y1 \<and> in_cell m y2))"
proof -
  have default_Some: "default_to d (Some s) = s" for d s
    by (simp add: default_to_def)
  have cells: "(\<exists>n. in_cell n a \<and> in_cell n b) = (cell a = cell b)" for a b
    by (auto simp: cell_in_cell [symmetric])
  have "(key_of R q1 = key_of R q2) =
      (weatherKey (big_toString R) (Fin x1) (Fin y1)
         (default_to ''metric'' (units q2)) (default_to ''en'' (lang q2)) =
       weatherKey (big_toString R) (Fin x2) (Fin y2)
         (default_to ''metric'' (units q2)) (default_to ''en'' (lang q2)))"
    by (simp add: key_of_def q1 q2 num same default_Some)
  also have "\<dots> = ((x1 < 0) = (x2 < 0) \<and> cell x1 = cell x2 \<and>
      (y1 < 0) = (y2 < 0) \<and> cell y1 = cell y2)"
    by (rule weatherKey_eq_iff [OF bound])
  finally show ?thesis by (simp only: cells)
qed

theorem weather_key_same_cell_witness:
  "Number_str example_runtime ''12.25'' = Fin (49 / 4) \<and>
   Number_str example_runtime ''12.2501220703125'' = Fin (100353 / 8192) \<and>
   Number_str example_runtime ''-77.5'' = Fin (- 155 / 2) \<and>
   in_cell 12250 (49 / 4) \<and> in_cell 12250 (100353 / 8192) \<and> in_cell 77500 (- 155 / 2) \<and>
   key_of example_runtime request_a = key_of example_runtime request_b \<and>
   Number_str example_runtime ''1.0005'' = Fin (4505851427184181 / 4503599627370496) \<and>
   Number_str example_runtime ''1.001'' = Fin (2254051613498933 / 2251799813685248) \<and>
   in_cell 1000 (4505851427184181 / 4503599627370496) \<and>
   in_cell 1001 (2254051613498933 / 2251799813685248) \<and>
   key_of example_runtime \<lparr>lat = Some ''1.0005'', lon = Some ''-77.5'', units = None, lang = None\<rparr> \<noteq>
   key_of example_runtime \<lparr>lat = Some ''1.001'', lon = Some ''-77.5'', units = None, lang = None\<rparr>"
proof -
  let ?R = example_runtime
  let ?p = "\<lparr>lat = Some ''1.0005'', lon = Some ''-77.5'', units = None, lang = None\<rparr>"
  let ?q = "\<lparr>lat = Some ''1.001'', lon = Some ''-77.5'', units = None, lang = None\<rparr>"
  let ?x = "4505851427184181 / 4503599627370496 :: rat"
  let ?y = "2254051613498933 / 2251799813685248 :: rat"
  have n1: "Number_str ?R ''12.25'' = Fin (49 / 4)"
    and n2: "Number_str ?R ''12.2501220703125'' = Fin (100353 / 8192)"
    and n3: "Number_str ?R ''-77.5'' = Fin (- 155 / 2)"
    and n4: "Number_str ?R ''1.0005'' = Fin ?x"
    and n5: "Number_str ?R ''1.001'' = Fin ?y"
    by code_simp+
  have c1: "in_cell 12250 (49 / 4)" and c2: "in_cell 12250 (100353 / 8192)"
    and c3: "in_cell 77500 (- 155 / 2)" and c4: "in_cell 1000 ?x" and c5: "in_cell 1001 ?y"
    by (simp_all add: in_cell_def)
  have b: "\<bar>49 / 4 :: rat\<bar> < 10 ^ 21" "\<bar>100353 / 8192 :: rat\<bar> < 10 ^ 21"
    "\<bar>- 155 / 2 :: rat\<bar> < 10 ^ 21" "\<bar>?x\<bar> < 10 ^ 21" "\<bar>?y\<bar> < 10 ^ 21"
    by simp_all
  have "(key_of ?R request_a = key_of ?R request_b) =
      (((49 / 4 :: rat) < 0) = ((100353 / 8192 :: rat) < 0) \<and>
       (\<exists>n. in_cell n (49 / 4) \<and> in_cell n (100353 / 8192)) \<and>
       ((- 155 / 2 :: rat) < 0) = ((- 155 / 2 :: rat) < 0) \<and>
       (\<exists>m. in_cell m (- 155 / 2) \<and> in_cell m (- 155 / 2)))"
    by (rule weather_key_same_cell [OF _ _ _ _ n1 n3 n2 n3 b(1,2,3,3)])
      (simp_all add: request_a_def request_b_def)
  with c1 c2 c3 have same: "key_of ?R request_a = key_of ?R request_b" by auto
  have "(key_of ?R ?p = key_of ?R ?q) =
      ((?x < 0) = (?y < 0) \<and> (\<exists>n. in_cell n ?x \<and> in_cell n ?y) \<and>
       ((- 155 / 2 :: rat) < 0) = ((- 155 / 2 :: rat) < 0) \<and>
       (\<exists>m. in_cell m (- 155 / 2) \<and> in_cell m (- 155 / 2)))"
    by (rule weather_key_same_cell [OF _ _ _ _ n4 n3 n5 n3 b(4,5,3,3)]) simp_all
  moreover have "\<not> (\<exists>n. in_cell n ?x \<and> in_cell n ?y)"
  proof
    assume "\<exists>n. in_cell n ?x \<and> in_cell n ?y"
    then obtain n where "in_cell n ?x" "in_cell n ?y" by blast
    then have "cell ?x = n" "cell ?y = n" by (simp_all only: cell_in_cell)
    moreover from c4 c5 have "cell ?x = 1000" "cell ?y = 1001" by (simp_all only: cell_in_cell)
    ultimately show False by simp
  qed
  ultimately have differ: "key_of ?R ?p \<noteq> key_of ?R ?q" by simp
  from n1 n2 n3 c1 c2 c3 same n4 n5 c4 c5 differ show ?thesis by blast
qed

text \<open>
  C1 as stated fails: being less than \<open>0.0005\<close> apart is not enough. The latitudes
  \<open>0.000244140625\<close> and \<open>0.000732421875\<close> (\<open>1 / 4096\<close> and \<open>3 / 4096\<close>, both binary64
  values) are \<open>0.00048828125\<close> apart, the longitudes, units and language are equal, and
  the keys differ: one latitude rounds down to \<open>0.000\<close>, the other up to \<open>0.001\<close>.
\<close>

theorem weatherKey_nearby_counterexample:
  "Number_str example_runtime ''0.000244140625'' = Fin (1 / 4096) \<and>
   Number_str example_runtime ''0.000732421875'' = Fin (3 / 4096) \<and>
   \<bar>(1 / 4096 :: rat) - 3 / 4096\<bar> < 5 / 10000 \<and>
   key_of example_runtime \<lparr>lat = Some ''0.000244140625'', lon = Some ''0'', units = None, lang = None\<rparr>
     = ''0.000,0.000,metric,en'' \<and>
   key_of example_runtime \<lparr>lat = Some ''0.000732421875'', lon = Some ''0'', units = None, lang = None\<rparr>
     = ''0.001,0.000,metric,en''"
  by code_simp

section \<open>A fresh entry is served from the cache (C2)\<close>

text \<open>
  C2. Let a weather request succeed, that is, be answered with a payload \<open>d\<close> under the
  cache-control hint. Then the cache holds an entry for the request's key with payload
  \<open>d\<close>, stamped with the time of the request when the request went upstream. Every
  later request that computes the same key less than 60000 ms after the entry's
  timestamp reads the cache and does nothing else (no upstream call, whatever the
  upstream would have answered), leaves the cache as it is, and answers \<open>d\<close> with status
  200 and \<^verbatim>\<open>Cache-Control: public, max-age=30, stale-while-revalidate=120\<close>. The same
  holds in any later cache \<open>c2\<close> for the entry that the key has there.
\<close>

theorem fresh_hit_no_upstream:
  assumes first: "weather R fetch1 now1 c0 q1 =
        (c1,
         \<lparr>status = 200,
           headers = [(''Cache-Control'', ''public, max-age=30, stale-while-revalidate=120'')],
           body = d\<rparr>,
         effs1)"
      and second: "present (lat q2)" "present (lon q2)" "key_of R q2 = key_of R q1"
    shows "\<exists>e. Map_get c1 (key_of R q1) = Some e \<and> data e = d \<and>
             (Fetch (url_of R q1) \<in> set effs1 \<longrightarrow> ts e = now1) \<and>
             (now2 - ts e < 60000 \<longrightarrow>
                weather R fetch2 now2 c1 q2 =
                  (c1,
                   \<lparr>status = 200,
                     headers = [(''Cache-Control'',
                                 ''public, max-age=30, stale-while-revalidate=120'')],
                     body = d\<rparr>,
                   [CacheGet (key_of R q1)])) \<and>
             (\<forall>c2 e2. Map_get c2 (key_of R q1) = Some e2 \<and> now2 - ts e2 < 60000 \<longrightarrow>
                weather R fetch2 now2 c2 q2 =
                  (c2,
                   \<lparr>status = 200,
                     headers = [(''Cache-Control'',
                                 ''public, max-age=30, stale-while-revalidate=120'')],
                     body = data e2\<rparr>,
                   [CacheGet (key_of R q1)]))"
proof -
  have "weather R fetch1 now1 c0 q1 = (c1, hinted d, effs1)"
    using first by (simp add: hinted_def)
  from fresh_hit_hinted [OF this second, of now2 fetch2] show ?thesis
    by (simp add: hinted_def)
qed

theorem fresh_hit_no_upstream_witness:
  "weather example_runtime upstream_fine 1000 [] request_a =
     ([(''12.250,-77.500,metric,en'', \<lparr>ts = 1000, data = Obj [(''name'', Str ''Lima'')]\<rparr>)],
      \<lparr>status = 200,
        headers = [(''Cache-Control'', ''public, max-age=30, stale-while-revalidate=120'')],
        body = Obj [(''name'', Str ''Lima'')]\<rparr>,
      [CacheGet ''12.250,-77.500,metric,en'', Fetch (url_of example_runtime request_a),
       CacheSet ''12.250,-77.500,metric,en'']) \<and>
   present (lat request_b) \<and> present (lon request_b) \<and>
   key_of example_runtime request_b = key_of example_runtime request_a \<and>
   (60999 :: int) - 1000 < 60000 \<and>
   weather example_runtime upstream_down 60999
     [(''12.250,-77.500,metric,en'', \<lparr>ts = 1000, data = Obj [(''name'', Str ''Lima'')]\<rparr>)]
     request_b =
     ([(''12.250,-77.500,metric,en'', \<lparr>ts = 1000, data = Obj [(''name'', Str ''Lima'')]\<rparr>)],
      \<lparr>status = 200,
        headers = [(''Cache-Control'', ''public, max-age=30, stale-while-revalidate=120'')],
        body = Obj [(''name'', Str ''Lima'')]\<rparr>,
      [CacheGet ''12.250,-77.500,metric,en''])"
proof -
  let ?c = "[(''12.250,-77.500,metric,en'', \<lparr>ts = 1000, data = Obj [(''name'', Str ''Lima'')]\<rparr>)]"
  let ?h = "\<lparr>status = 200,
        headers = [(''Cache-Control'', ''public, max-age=30, stale-while-revalidate=120'')],
        body = Obj [(''name'', Str ''Lima'')]\<rparr>"
  have first: "weather example_runtime upstream_fine 1000 [] request_a =
     (?c, ?h,
      [CacheGet ''12.250,-77.500,metric,en'', Fetch (url_of example_runtime request_a),
       CacheSet ''12.250,-77.500,metric,en''])"
    using ex_first by (simp add: hinted_def)
  have same: "key_of example_runtime request_b = key_of example_runtime request_a"
    by (simp add: ex_key_a ex_key_b)
  from fresh_hit_no_upstream [OF first ex_present(3,4) same, of 60999 upstream_down]
  obtain e where
    e: "Map_get ?c (key_of example_runtime request_a) = Some e"
    and hit: "60999 - ts e < 60000 \<longrightarrow>
       weather example_runtime upstream_down 60999 ?c request_b =
         (?c, ?h, [CacheGet (key_of example_runtime request_a)])"
    by blast
  from e have "ts e = 1000" by (auto simp: ex_key_a)
  with hit have "weather example_runtime upstream_down 60999 ?c request_b =
         (?c, ?h, [CacheGet ''12.250,-77.500,metric,en''])"
    by (simp add: ex_key_a)
  with first ex_present(3,4) same show ?thesis by simp
qed

section \<open>A stale entry is refreshed in place (C3)\<close>

text \<open>
  C3. In a cache the server can hold, let the key \<open>k\<close> have an entry that is 60000 ms
  old or older. A request that computes \<open>k\<close> issues exactly one upstream call. When the
  upstream answers with a success status and a body that parses, the response is the
  new payload under the hint and the entry of \<open>k\<close> is replaced by the new payload with
  the time of the request; every other key keeps its entry and the number of entries
  does not change. Whatever the upstream did, the keys of the cache stay distinct and
  \<open>k\<close> has exactly one entry.
\<close>

theorem stale_entry_refetched:
  assumes reach: "reachable R c"
      and entry: "Map_get c k = Some e" "60000 \<le> now - ts e"
      and req: "present (lat q)" "present (lon q)" "key_of R q = k"
      and run: "weather R fetch now c q = (c', res, effs)"
    shows "filter is_Fetch effs = [Fetch (url_of R q)] \<and>
           (\<forall>r d. fetch (url_of R q) = Returns r \<and> ok r \<and> r_json r = Returns d \<longrightarrow>
              res = hinted d \<and>
              c' = Map_set k \<lparr>ts = now, data = d\<rparr> c \<and>
              Map_get c' k = Some \<lparr>ts = now, data = d\<rparr> \<and>
              (\<forall>k'. k' \<noteq> k \<longrightarrow> Map_get c' k' = Map_get c k') \<and>
              length c' = length c) \<and>
           distinct (map fst c') \<and>
           length (filter (\<lambda>p. fst p = k) c') = 1"
proof -
  from entry(1) have "c \<noteq> []" by auto
  with reachable_inv [OF reach] have
    dist: "distinct (map fst c)" and key: "present (OPENWEATHER_API_KEY R)"
    by auto
  have stale: "\<not> now - ts e < WEATHER_TTL_MS"
    using entry(2) by (simp add: WEATHER_TTL_MS_def)
  have w: "weather R fetch now c q =
      (case fetch (url_of R q) of
         Throws x \<Rightarrow> (c, weather_failed R x, [CacheGet (key_of R q), Fetch (url_of R q)])
       | Returns r \<Rightarrow>
           (case r_json r of
              Throws x \<Rightarrow> (c, weather_failed R x, [CacheGet (key_of R q), Fetch (url_of R q)])
            | Returns d \<Rightarrow>
                if \<not> ok r
                then (c, json (r_status r) d, [CacheGet (key_of R q), Fetch (url_of R q)])
                else (Map_set (key_of R q) \<lparr>ts = now, data = d\<rparr> c, hinted d,
                      [CacheGet (key_of R q), Fetch (url_of R q), CacheSet (key_of R q)])))"
    using entry(1) stale unfolding req(3) [symmetric]
    by (intro weather_upstream [OF req(1,2) key]) simp
  have w': "(c', res, effs) =
      (case fetch (url_of R q) of
         Throws x \<Rightarrow> (c, weather_failed R x, [CacheGet k, Fetch (url_of R q)])
       | Returns r \<Rightarrow>
           (case r_json r of
              Throws x \<Rightarrow> (c, weather_failed R x, [CacheGet k, Fetch (url_of R q)])
            | Returns d \<Rightarrow>
                if \<not> ok r
                then (c, json (r_status r) d, [CacheGet k, Fetch (url_of R q)])
                else (Map_set k \<lparr>ts = now, data = d\<rparr> c, hinted d,
                      [CacheGet k, Fetch (url_of R q), CacheSet k])))"
    using w run unfolding req(3) [symmetric] by simp
  have calls: "filter is_Fetch effs = [Fetch (url_of R q)]"
    using w' by (auto split: outcome.splits if_splits)
  have cases: "c' = c \<or> (\<exists>d. c' = Map_set k \<lparr>ts = now, data = d\<rparr> c)"
    using w' by (auto split: outcome.splits if_splits)
  have dist': "distinct (map fst c')"
    using cases dist by (auto simp: distinct_Map_set)
  have "\<exists>e'. Map_get c' k = Some e'"
    using cases entry(1) by (auto simp: Map_get_set)
  then have one: "length (filter (\<lambda>p. fst p = k) c') = 1"
    using dist' by (auto simp: count_key)
  have success: "res = hinted d \<and>
              c' = Map_set k \<lparr>ts = now, data = d\<rparr> c \<and>
              Map_get c' k = Some \<lparr>ts = now, data = d\<rparr> \<and>
              (\<forall>k'. k' \<noteq> k \<longrightarrow> Map_get c' k' = Map_get c k') \<and>
              length c' = length c"
    if "fetch (url_of R q) = Returns r" "ok r" "r_json r = Returns d" for r d
    using w' that entry(1) by (simp add: Map_get_set length_Map_set)
  from calls success dist' one show ?thesis by blast
qed

theorem stale_entry_refetched_witness:
  "reachable example_runtime
     [(''12.250,-77.500,metric,en'', \<lparr>ts = 1000, data = Obj [(''name'', Str ''Lima'')]\<rparr>)] \<and>
   Map_get [(''12.250,-77.500,metric,en'', \<lparr>ts = 1000, data = Obj [(''name'', Str ''Lima'')]\<rparr>)]
     ''12.250,-77.500,metric,en'' = Some \<lparr>ts = 1000, data = Obj [(''name'', Str ''Lima'')]\<rparr> \<and>
   (60000 :: int) \<le> 61000 - 1000 \<and>
   present (lat request_b) \<and> present (lon request_b) \<and>
   key_of example_runtime request_b = ''12.250,-77.500,metric,en'' \<and>
   upstream_cloudy (url_of example_runtime request_b) =
     Returns \<lparr>ok = True, r_status = 200, r_json = Returns (Obj [(''name'', Str ''Callao'')])\<rparr> \<and>
   filter is_Fetch (snd (snd (weather example_runtime upstream_cloudy 61000
     [(''12.250,-77.500,metric,en'', \<lparr>ts = 1000, data = Obj [(''name'', Str ''Lima'')]\<rparr>)]
     request_b))) = [Fetch (url_of example_runtime request_b)] \<and>
   fst (weather example_runtime upstream_cloudy 61000
     [(''12.250,-77.500,metric,en'', \<lparr>ts = 1000, data = Obj [(''name'', Str ''Lima'')]\<rparr>)]
     request_b) =
     [(''12.250,-77.500,metric,en'', \<lparr>ts = 61000, data = Obj [(''name'', Str ''Callao'')]\<rparr>)] \<and>
   fst (snd (weather example_runtime upstream_cloudy 61000
     [(''12.250,-77.500,metric,en'', \<lparr>ts = 1000, data = Obj [(''name'', Str ''Lima'')]\<rparr>)]
     request_b)) = hinted (Obj [(''name'', Str ''Callao'')])"
proof -
  let ?k = "''12.250,-77.500,metric,en''"
  let ?c = "[(?k, \<lparr>ts = 1000, data = Obj [(''name'', Str ''Lima'')]\<rparr>)]"
  let ?r = "\<lparr>ok = True, r_status = 200, r_json = Returns (Obj [(''name'', Str ''Callao'')])\<rparr>"
  obtain c' res effs where
    run: "weather example_runtime upstream_cloudy 61000 ?c request_b = (c', res, effs)"
    by (cases "weather example_runtime upstream_cloudy 61000 ?c request_b") blast
  have entry: "Map_get ?c ?k = Some \<lparr>ts = 1000, data = Obj [(''name'', Str ''Lima'')]\<rparr>"
    by simp
  have stale: "(60000 :: int) \<le> 61000 - ts \<lparr>ts = 1000, data = Obj [(''name'', Str ''Lima'')]\<rparr>"
    by simp
  have up: "upstream_cloudy (url_of example_runtime request_b) = Returns ?r"
    by (simp add: upstream_cloudy_def)
  from stale_entry_refetched
    [OF ex_cache_reachable entry stale ex_present(3,4) ex_key_b run]
  have calls: "filter is_Fetch effs = [Fetch (url_of example_runtime request_b)]"
    and success: "\<And>r d. upstream_cloudy (url_of example_runtime request_b) = Returns r
        \<Longrightarrow> ok r \<Longrightarrow> r_json r = Returns d
        \<Longrightarrow> res = hinted d \<and> c' = Map_set ?k \<lparr>ts = 61000, data = d\<rparr> ?c"
    by blast+
  from success [OF up] have "res = hinted (Obj [(''name'', Str ''Callao'')])"
    and "c' = [(?k, \<lparr>ts = 61000, data = Obj [(''name'', Str ''Callao'')]\<rparr>)]"
    by simp_all
  with calls run ex_cache_reachable ex_present(3,4) ex_key_b up show ?thesis
    by simp
qed

section \<open>An upstream error is forwarded when its body parses (C4)\<close>

text \<open>
  C4, as the code has it. When a weather request goes upstream and the upstream answers
  with a status that is not a success, the cache is left unchanged (nothing is stored)
  and the request read the cache and made that one upstream call, nothing else. The
  body is parsed before the status is looked at (line 59 before line 60): when it
  parses, the response carries the upstream's status code, no header of the handler's,
  and the parsed body as it is (at status 304 Express sends the status without a body);
  when it does not parse, the handler's \<^verbatim>\<open>catch\<close> answers with status 500 and
  \<^verbatim>\<open>error: "Weather fetch failed"\<close>.
\<close>

theorem upstream_error_forwarded:
  assumes run: "weather R fetch now c q = (c', res, effs)"
      and called: "Fetch u \<in> set effs"
      and up: "fetch u = Returns r"
      and bad: "\<not> ok r"
    shows "c' = c \<and> effs = [CacheGet (key_of R q), Fetch u] \<and>
           (\<forall>d. r_json r = Returns d \<longrightarrow>
              status res = r_status r \<and> headers res = [] \<and>
              (r_status r \<noteq> 204 \<and> r_status r \<noteq> 205 \<and> r_status r \<noteq> 304 \<longrightarrow> body res = d) \<and>
              (r_status r = 304 \<longrightarrow> body res = Undefined)) \<and>
           (\<forall>e. r_json r = Throws e \<longrightarrow>
              res = \<lparr>status = 500, headers = [],
                      body = Obj [(''error'', Str ''Weather fetch failed''),
                                  (''details'', details R e)]\<rparr>)"
  using assms
  by (auto simp: weather_def fresh_entry_def Let_def json_def weather_failed_def
           split: if_splits outcome.splits option.splits)

theorem upstream_error_forwarded_witness:
  "Fetch (url_of example_runtime request_a)
     \<in> set (snd (snd (weather example_runtime upstream_unauthorized 1000 [] request_a))) \<and>
   upstream_unauthorized (url_of example_runtime request_a) =
     Returns \<lparr>ok = False, r_status = 401,
       r_json = Returns (Obj [(''cod'', Num (Fin 401)), (''message'', Str ''Invalid API key'')])\<rparr> \<and>
   weather example_runtime upstream_unauthorized 1000 [] request_a =
     ([], \<lparr>status = 401, headers = [],
           body = Obj [(''cod'', Num (Fin 401)), (''message'', Str ''Invalid API key'')]\<rparr>,
      [CacheGet ''12.250,-77.500,metric,en'', Fetch (url_of example_runtime request_a)]) \<and>
   Fetch (url_of example_runtime request_a)
     \<in> set (snd (snd (weather example_runtime upstream_bad_gateway 1000 [] request_a))) \<and>
   fst (weather example_runtime upstream_bad_gateway 1000 [] request_a) = [] \<and>
   fst (snd (weather example_runtime upstream_bad_gateway 1000 [] request_a)) =
     \<lparr>status = 500, headers = [],
       body = Obj [(''error'', Str ''Weather fetch failed''),
                   (''details'', Str ''Unexpected token < in JSON at position 0'')]\<rparr>"
proof -
  let ?u = "url_of example_runtime request_a"
  let ?d = "Obj [(''cod'', Num (Fin 401)), (''message'', Str ''Invalid API key'')]"
  let ?r = "\<lparr>ok = False, r_status = 401, r_json = Returns ?d\<rparr>"
  let ?e = "Obj [(''name'', Str ''SyntaxError''),
                 (''message'', Str ''Unexpected token < in JSON at position 0'')]"
  let ?g = "\<lparr>ok = False, r_status = 502, r_json = Throws ?e\<rparr>"
  obtain c1 res1 effs1 where
    run1: "weather example_runtime upstream_unauthorized 1000 [] request_a = (c1, res1, effs1)"
    by (cases "weather example_runtime upstream_unauthorized 1000 [] request_a") blast
  have called1: "Fetch ?u \<in> set effs1"
    using run1 by (auto simp: ex_unauthorized)
  have up1: "upstream_unauthorized ?u = Returns ?r"
    by (simp add: upstream_unauthorized_def)
  have bad1: "\<not> ok ?r" by simp
  from upstream_error_forwarded [OF run1 called1 up1 bad1]
  have "c1 = []" "effs1 = [CacheGet (key_of example_runtime request_a), Fetch ?u]"
    "status res1 = 401" "headers res1 = []" "body res1 = ?d"
    by simp_all
  then have r1: "weather example_runtime upstream_unauthorized 1000 [] request_a =
      ([], \<lparr>status = 401, headers = [], body = ?d\<rparr>,
       [CacheGet ''12.250,-77.500,metric,en'', Fetch ?u])"
    using run1 by (simp add: ex_key_a)
  obtain c2 res2 effs2 where
    run2: "weather example_runtime upstream_bad_gateway 1000 [] request_a = (c2, res2, effs2)"
    by (cases "weather example_runtime upstream_bad_gateway 1000 [] request_a") blast
  have called2: "Fetch ?u \<in> set effs2"
    using run2 by (auto simp: ex_bad_gateway)
  have up2: "upstream_bad_gateway ?u = Returns ?g"
    by (simp add: upstream_bad_gateway_def)
  have bad2: "\<not> ok ?g" by simp
  from upstream_error_forwarded [OF run2 called2 up2 bad2]
  have "c2 = []"
    "res2 = \<lparr>status = 500, headers = [],
       body = Obj [(''error'', Str ''Weather fetch failed''),
                   (''details'', details example_runtime ?e)]\<rparr>"
    by simp_all
  moreover have "details example_runtime ?e = Str ''Unexpected token < in JSON at position 0''"
    by (simp add: details_def)
  ultimately have r2: "fst (weather example_runtime upstream_bad_gateway 1000 [] request_a) = []"
    "fst (snd (weather example_runtime upstream_bad_gateway 1000 [] request_a)) =
     \<lparr>status = 500, headers = [],
       body = Obj [(''error'', Str ''Weather fetch failed''),
                   (''details'', Str ''Unexpected token < in JSON at position 0'')]\<rparr>"
    using run2 by simp_all
  from called1 run1 up1 r1 called2 run2 r2 show ?thesis by simp
qed

text \<open>
  C4 as stated fails for an upstream error whose body is not JSON, such as the HTML page
  of a gateway: the upstream answers 502, \<^verbatim>\<open>r.json()\<close> throws, and the response is not
  the upstream's status and body but status 500 with \<^verbatim>\<open>Weather fetch failed\<close>.
\<close>

theorem upstream_error_not_json_counterexample:
  "upstream_bad_gateway (url_of example_runtime request_a) =
     Returns \<lparr>ok = False, r_status = 502,
       r_json = Throws (Obj [(''name'', Str ''SyntaxError''),
                             (''message'', Str ''Unexpected token < in JSON at position 0'')])\<rparr> \<and>
   weather example_runtime upstream_bad_gateway 1000 [] request_a =
     ([],
      \<lparr>status = 500, headers = [],
        body = Obj [(''error'', Str ''Weather fetch failed''),
                    (''details'', Str ''Unexpected token < in JSON at position 0'')]\<rparr>,
      [CacheGet ''12.250,-77.500,metric,en'', Fetch (url_of example_runtime request_a)]) \<and>
   status (fst (snd (weather example_runtime upstream_bad_gateway 1000 [] request_a))) \<noteq> 502"
  by (simp add: ex_bad_gateway upstream_bad_gateway_def)

section \<open>A missing coordinate is rejected (C5)\<close>

text \<open>
  C5. A weather request without \<^verbatim>\<open>lat\<close> or without \<^verbatim>\<open>lon\<close> is answered with status
  400 and the JSON body \<^verbatim>\<open>{"error": "lat and lon are required"}\<close>; the handler
  performs no effect (the cache is neither read nor written, no upstream call is made)
  and the cache is unchanged.
\<close>

theorem missing_coordinate_rejected:
  assumes "lat q = None \<or> lon q = None"
  shows "weather R fetch now c q =
           (c, \<lparr>status = 400, headers = [],
                 body = Obj [(''error'', Str ''lat and lon are required'')]\<rparr>, [])"
  using assms by (auto simp: weather_def fresh_entry_def json_def)

theorem missing_coordinate_rejected_witness:
  "lon \<lparr>lat = Some ''12.25'', lon = None, units = None, lang = None\<rparr> = None \<and>
   weather example_runtime upstream_fine 1000 []
     \<lparr>lat = Some ''12.25'', lon = None, units = None, lang = None\<rparr> =
     ([], \<lparr>status = 400, headers = [],
           body = Obj [(''error'', Str ''lat and lon are required'')]\<rparr>, [])"
proof -
  have "lat \<lparr>lat = Some ''12.25'', lon = None, units = None, lang = None\<rparr> = None \<or>
        lon \<lparr>lat = Some ''12.25'', lon = None, units = None, lang = None\<rparr> = None"
    by simp
  from missing_coordinate_rejected [OF this, of example_runtime upstream_fine 1000 "[]"]
  show ?thesis by simp
qed

section \<open>Marking a to-do done (C6)\<close>




section \<open>Creating a crop (C7)\<close>

text \<open>
  C7. \<^verbatim>\<open>POST /api/crops\<close> with the body \<^verbatim>\<open>{name: "Wheat"}\<close> answers with status 201 and
  the entity \<^verbatim>\<open>{id, name: "Wheat", variety: ""}\<close>, \<open>id\<close> being what \<^verbatim>\<open>makeId\<close> generated, and
  appends that entity at the end of \<^verbatim>\<open>crops\<close>. The generated id is not always non-empty:
  on a runtime without \<^verbatim>\<open>crypto.randomUUID\<close>, when \<^verbatim>\<open>Math.random()\<close> returns 0, the id is
  \<^verbatim>\<open>"0".slice(2)\<close>, the empty string, and the crop is created with it.
\<close>

theorem post_crop_wheat:
  "post_crop src crops (Obj [(''name'', Str ''Wheat'')]) =
     (crops @ [[(''id'', Str (makeId src)), (''name'', Str ''Wheat''), (''variety'', Str [])]],
      \<lparr>status = 201, headers = [],
        body = Obj [(''id'', Str (makeId src)), (''name'', Str ''Wheat''), (''variety'', Str [])]\<rparr>) \<and>
   makeId (MathRandom ''0'') = [] \<and>
   post_crop (MathRandom ''0'') [] (Obj [(''name'', Str ''Wheat'')]) =
     ([[(''id'', Str []), (''name'', Str ''Wheat''), (''variety'', Str [])]],
      \<lparr>status = 201, headers = [],
        body = Obj [(''id'', Str []), (''name'', Str ''Wheat''), (''variety'', Str [])]\<rparr>)"
  by (simp add: post_crop_def field_or_def json_def Let_def)

section \<open>The prompt of the chat relay (C8)\<close>

text \<open>
  C8. For the body \<^verbatim>\<open>{crop: "Corn", coords: {lat: 10, lon: 20}, message: "water?"}\<close> the
  context lines are the preamble, \<^verbatim>\<open>Crop: Corn\<close> and \<^verbatim>\<open>Coords: 10,20\<close> (the absent weather
  is not rendered), and the prompt is the preamble, \<^verbatim>\<open>Crop: Corn\<close>, \<^verbatim>\<open>Coords: 10,20\<close>
  joined by \<^verbatim>\<open>" | "\<close>, then a line feed, \<^verbatim>\<open>User: \<close> and the message \<^verbatim>\<open>water?\<close>, in this
  order. With the API key configured, this prompt is what the relay sends upstream,
  whatever the upstream answers.
\<close>

theorem prompt_corn:
  "contextLines R (Str ''Corn'') (Obj [(''lat'', Num (Fin 10)), (''lon'', Num (Fin 20))]) Null =
     [''You are a helpful farming assistant.'', ''Crop: Corn'', ''Coords: 10,20''] \<and>
   prompt_of R
     (Obj [(''crop'', Str ''Corn''),
           (''coords'', Obj [(''lat'', Num (Fin 10)), (''lon'', Num (Fin 20))]),
           (''message'', Str ''water?'')]) =
     ''You are a helpful farming assistant.'' @ '' | '' @ ''Crop: Corn'' @ '' | '' @
     ''Coords: 10,20'' @ [CHR 0x0A] @ ''User: '' @ ''water?'' \<and>
   snd (gemini_chat (R\<lparr>ai := True\<rparr>) generate
     (Obj [(''crop'', Str ''Corn''),
           (''coords'', Obj [(''lat'', Num (Fin 10)), (''lon'', Num (Fin 20))]),
           (''message'', Str ''water?'')])) =
     [''You are a helpful farming assistant.'' @ '' | '' @ ''Crop: Corn'' @ '' | '' @
      ''Coords: 10,20'' @ [CHR 0x0A] @ ''User: '' @ ''water?'']"
proof -
  let ?b = "Obj [(''crop'', Str ''Corn''),
           (''coords'', Obj [(''lat'', Num (Fin 10)), (''lon'', Num (Fin 20))]),
           (''message'', Str ''water?'')]"
  let ?p = "''You are a helpful farming assistant.'' @ '' | '' @ ''Crop: Corn'' @ '' | '' @
     ''Coords: 10,20'' @ [CHR 0x0A] @ ''User: '' @ ''water?''"
  have lines: "contextLines R (Str ''Corn'')
      (Obj [(''lat'', Num (Fin 10)), (''lon'', Num (Fin 20))]) Null =
     [''You are a helpful farming assistant.'', ''Crop: Corn'', ''Coords: 10,20'']"
    by code_simp
  have p: "prompt_of R ?b = ?p" for R
    by code_simp
  have "snd (gemini_chat (R\<lparr>ai := True\<rparr>) generate ?b) = [prompt_of (R\<lparr>ai := True\<rparr>) ?b]"
    by (simp add: gemini_chat_def Let_def split: outcome.splits)
  with lines p show ?thesis by simp
qed

section \<open>Extracting the reply (C9)\<close>

text \<open>
  C9, as the code has it. The extraction looks at \<^verbatim>\<open>result.text\<close> first: a non-empty
  string there is the reply, and \<^verbatim>\<open>result.response.text\<close> is not called. Otherwise it
  looks at \<^verbatim>\<open>result.response.text\<close>: when that is callable and returns a non-empty
  string, the string is the reply; when the call throws, the extraction throws; when it
  returns a falsy value, or when there is no callable, the reply is exactly
  \<^verbatim>\<open>No reply.\<close>. With the API key configured the relay answers a thrown value with
  status 500, \<^verbatim>\<open>error: "Gemini error"\<close> and the details of the value, and a reply \<open>v\<close>
  with status 200 and \<^verbatim>\<open>{reply: v}\<close>.
\<close>

theorem reply_text_cases:
  "(text_field result = Str s \<and> s \<noteq> [] \<longrightarrow> reply_text result = Returns (Str s)) \<and>
   ((\<forall>s. text_field result = Str s \<longrightarrow> s = []) \<longrightarrow>
      (text_method result = Fun (Returns (Str s)) \<and> s \<noteq> [] \<longrightarrow>
         reply_text result = Returns (Str s)) \<and>
      (text_method result = Fun (Throws e) \<longrightarrow> reply_text result = Throws e) \<and>
      (text_method result = Fun (Returns v) \<and> \<not> truthy v \<longrightarrow>
         reply_text result = Returns (Str ''No reply.'')) \<and>
      ((\<forall>c. text_method result \<noteq> Fun c) \<longrightarrow>
         reply_text result = Returns (Str ''No reply.''))) \<and>
   (ai R \<and> reply_text result = Throws e \<longrightarrow>
      gemini_chat R (\<lambda>p. Returns result) b =
        (\<lparr>status = 500, headers = [],
           body = Obj [(''error'', Str ''Gemini error''), (''details'', details R e)]\<rparr>,
         [prompt_of R b])) \<and>
   (ai R \<and> reply_text result = Returns v \<longrightarrow>
      gemini_chat R (\<lambda>p. Returns result) b =
        (\<lparr>status = 200, headers = [], body = Obj [(''reply'', v)]\<rparr>, [prompt_of R b]))"
proof -
  have shape: "(js_typeof x = ''string'') = (\<exists>s. x = Str s)"
    "(js_typeof x = ''function'') = (\<exists>c. x = Fun c)" for x
    by (cases x; simp)+
  have first: "reply_text result = Returns (Str s)" if "text_field result = Str s" "s \<noteq> []" for s
    using that by (simp add: reply_text_def js_and_def)
  have second: "reply_text result =
      (if js_typeof (text_method result) = ''function''
       then (case call (text_method result) of
               Throws e \<Rightarrow> Throws e
             | Returns v \<Rightarrow> if truthy v then Returns v else Returns (Str ''No reply.''))
       else Returns (Str ''No reply.''))"
    if "\<forall>s. text_field result = Str s \<longrightarrow> s = []"
    using that by (cases "text_field result") (simp_all add: reply_text_def js_and_def)
  have chat: "gemini_chat R (\<lambda>p. Returns result) b =
      (case reply_text result of
         Throws e \<Rightarrow> (gemini_failed R e, [prompt_of R b])
       | Returns t \<Rightarrow> (json 200 (Obj [(''reply'', t)]), [prompt_of R b]))"
    if "ai R"
    using that by (simp add: gemini_chat_def Let_def)
  show ?thesis
    using first second chat
    by (auto simp: shape gemini_failed_def json_def)
qed

theorem reply_text_cases_witness:
  "text_field (Obj [(''text'', Str ''Water at dawn.'')]) = Str ''Water at dawn.'' \<and>
   reply_text (Obj [(''text'', Str ''Water at dawn.'')]) = Returns (Str ''Water at dawn.'') \<and>
   ai example_runtime \<and>
   gemini_chat example_runtime (\<lambda>p. Returns (Obj [(''text'', Str ''Water at dawn.'')]))
     (Obj [(''message'', Str ''water?'')]) =
     (\<lparr>status = 200, headers = [], body = Obj [(''reply'', Str ''Water at dawn.'')]\<rparr>,
      [prompt_of example_runtime (Obj [(''message'', Str ''water?'')])]) \<and>
   text_field (Obj [(''response'', Obj [(''text'', Fun (Returns (Str ''At dusk.'')))])]) = Undefined \<and>
   reply_text (Obj [(''response'', Obj [(''text'', Fun (Returns (Str ''At dusk.'')))])]) =
     Returns (Str ''At dusk.'') \<and>
   reply_text (Obj [(''text'', Str []), (''response'', Obj [(''text'', Fun (Returns (Str [])))])]) =
     Returns (Str ''No reply.'') \<and>
   reply_text (Obj [(''candidates'', Arr [])]) = Returns (Str ''No reply.'') \<and>
   reply_text (Obj [(''response'', Obj [(''text'', Fun (Throws (Str ''blocked'')))])]) =
     Throws (Str ''blocked'') \<and>
   gemini_chat example_runtime
     (\<lambda>p. Returns (Obj [(''response'', Obj [(''text'', Fun (Throws (Str ''blocked'')))])]))
     (Obj [(''message'', Str ''water?'')]) =
     (\<lparr>status = 500, headers = [],
        body = Obj [(''error'', Str ''Gemini error''),
                    (''details'', details example_runtime (Str ''blocked''))]\<rparr>,
      [prompt_of example_runtime (Obj [(''message'', Str ''water?'')])])"
proof -
  let ?r1 = "Obj [(''text'', Str ''Water at dawn.'')]"
  let ?r2 = "Obj [(''response'', Obj [(''text'', Fun (Returns (Str ''At dusk.'')))])]"
  let ?r3 = "Obj [(''text'', Str []), (''response'', Obj [(''text'', Fun (Returns (Str [])))])]"
  let ?r4 = "Obj [(''candidates'', Arr [])]"
  let ?r5 = "Obj [(''response'', Obj [(''text'', Fun (Throws (Str ''blocked'')))])]"
  let ?b = "Obj [(''message'', Str ''water?'')]"
  have ai: "ai example_runtime" by (simp add: example_runtime_def)
  have t1: "text_field ?r1 = Str ''Water at dawn.''" by (simp add: text_field_def)
  have t2: "text_field ?r2 = Undefined" "text_method ?r2 = Fun (Returns (Str ''At dusk.''))"
    by (simp_all add: text_field_def text_method_def)
  have t3: "text_field ?r3 = Str []" "text_method ?r3 = Fun (Returns (Str []))"
    by (simp_all add: text_field_def text_method_def)
  have t4: "text_field ?r4 = Undefined" "text_method ?r4 = Undefined"
    by (simp_all add: text_field_def text_method_def)
  have t5: "text_field ?r5 = Undefined" "text_method ?r5 = Fun (Throws (Str ''blocked''))"
    by (simp_all add: text_field_def text_method_def)
  have r1: "reply_text ?r1 = Returns (Str ''Water at dawn.'')"
    using reply_text_cases [where result = ?r1 and s = "''Water at dawn.''"] t1 by simp
  have c1: "gemini_chat example_runtime (\<lambda>p. Returns ?r1) ?b =
     (\<lparr>status = 200, headers = [], body = Obj [(''reply'', Str ''Water at dawn.'')]\<rparr>,
      [prompt_of example_runtime ?b])"
    using reply_text_cases [where result = ?r1 and v = "Str ''Water at dawn.''"
        and R = example_runtime and b = ?b] r1 ai by blast
  have r2: "reply_text ?r2 = Returns (Str ''At dusk.'')"
    using reply_text_cases [where result = ?r2 and s = "''At dusk.''"] t2 by simp
  have r3: "reply_text ?r3 = Returns (Str ''No reply.'')"
    using reply_text_cases [where result = ?r3 and v = "Str []"] t3 by simp
  have r4: "reply_text ?r4 = Returns (Str ''No reply.'')"
    using reply_text_cases [where result = ?r4] t4 by simp
  have r5: "reply_text ?r5 = Throws (Str ''blocked'')"
    using reply_text_cases [where result = ?r5 and e = "Str ''blocked''"] t5 by simp
  have c5: "gemini_chat example_runtime (\<lambda>p. Returns ?r5) ?b =
     (\<lparr>status = 500, headers = [],
        body = Obj [(''error'', Str ''Gemini error''),
                    (''details'', details example_runtime (Str ''blocked''))]\<rparr>,
      [prompt_of example_runtime ?b])"
    using reply_text_cases [where result = ?r5 and e = "Str ''blocked''"
        and R = example_runtime and b = ?b] r5 ai by blast
  from t1 r1 ai c1 t2(1) r2 r3 r4 r5 c5 show ?thesis by blast
qed

text \<open>
  C9 as stated fails for an upstream result whose \<^verbatim>\<open>response.text()\<close> throws: no
  accessor yields a text, and the result is not \<^verbatim>\<open>No reply.\<close> but the handler's error
  response, status 500.
\<close>

theorem reply_text_throwing_counterexample:
  "text_field (Obj [(''response'', Obj [(''text'', Fun (Throws (Obj [(''message'', Str ''blocked'')])))])])
     = Undefined \<and>
   text_method (Obj [(''response'', Obj [(''text'', Fun (Throws (Obj [(''message'', Str ''blocked'')])))])])
     = Fun (Throws (Obj [(''message'', Str ''blocked'')])) \<and>
   reply_text (Obj [(''response'', Obj [(''text'', Fun (Throws (Obj [(''message'', Str ''blocked'')])))])])
     = Throws (Obj [(''message'', Str ''blocked'')]) \<and>
   reply_text (Obj [(''response'', Obj [(''text'', Fun (Throws (Obj [(''message'', Str ''blocked'')])))])])
     \<noteq> Returns (Str ''No reply.'') \<and>
   fst (gemini_chat example_runtime
     (\<lambda>p. Returns (Obj [(''response'',
        Obj [(''text'', Fun (Throws (Obj [(''message'', Str ''blocked'')])))])]))
     (Obj [(''message'', Str ''water?'')])) =
     \<lparr>status = 500, headers = [],
        body = Obj [(''error'', Str ''Gemini error''), (''details'', Str ''blocked'')]\<rparr>"
  by code_simp

section \<open>A zero coordinate drops the coordinates line (C10)\<close>

text \<open>
  C10. When the \<^verbatim>\<open>coords\<close> object of the chat request has \<^verbatim>\<open>lat\<close> equal to 0 or \<^verbatim>\<open>lon\<close>
  equal to 0, the coordinates element of the context is the empty string, so the
  context lines are the preamble, the crop line and the weather line (those that are
  not empty), the same as for a request without \<^verbatim>\<open>coords\<close>, and none of them starts
  with \<^verbatim>\<open>Coords:\<close>. The test is the truthiness of the two numbers, and 0 is falsy.
\<close>

theorem zero_coordinate_omitted:
  assumes "opt_get coords ''lat'' = Num (Fin 0) \<or> opt_get coords ''lon'' = Num (Fin 0)"
  shows "coords_line R coords = [] \<and>
         contextLines R crop coords w =
           filter (\<lambda>s. s \<noteq> [])
             [''You are a helpful farming assistant.'', crop_line R crop, weather_line R w] \<and>
         contextLines R crop coords w = contextLines R crop Null w \<and>
         (\<forall>s \<in> set (contextLines R crop coords w). take 7 s \<noteq> ''Coords:'')"
proof -
  have line: "coords_line R coords = []"
    using assms by (auto simp: coords_line_def js_and_def)
  have null: "coords_line R Null = []"
    by (simp add: coords_line_def js_and_def)
  have lines: "contextLines R crop coords w =
      filter (\<lambda>s. s \<noteq> [])
        [''You are a helpful farming assistant.'', crop_line R crop, weather_line R w]"
    by (simp add: contextLines_def line)
  have same: "contextLines R crop coords w = contextLines R crop Null w"
    by (simp add: contextLines_def line null)
  have "take 7 s \<noteq> ''Coords:''"
    if "s \<in> set (contextLines R crop coords w)" for s
    using that unfolding lines
    by (auto simp: crop_line_def weather_line_def split: if_splits)
  with line lines same show ?thesis by blast
qed

theorem zero_coordinate_omitted_witness:
  "opt_get (Obj [(''lat'', Num (Fin 0)), (''lon'', Num (Fin 20))]) ''lat'' = Num (Fin 0) \<and>
   coords_line example_runtime (Obj [(''lat'', Num (Fin 0)), (''lon'', Num (Fin 20))]) = [] \<and>
   contextLines example_runtime (Str ''Corn'')
     (Obj [(''lat'', Num (Fin 0)), (''lon'', Num (Fin 20))]) Null =
     [''You are a helpful farming assistant.'', ''Crop: Corn''] \<and>
   coords_line example_runtime (Obj [(''lat'', Num (Fin 10)), (''lon'', Num (Fin 20))]) =
     ''Coords: 10,20''"
proof -
  let ?c = "Obj [(''lat'', Num (Fin 0)), (''lon'', Num (Fin 20))]"
  have z: "opt_get ?c ''lat'' = Num (Fin 0)" by simp
  then have "opt_get ?c ''lat'' = Num (Fin 0) \<or> opt_get ?c ''lon'' = Num (Fin 0)" ..
  from zero_coordinate_omitted [OF this, of example_runtime "Str ''Corn''" Null]
  have "coords_line example_runtime ?c = []"
    and "contextLines example_runtime (Str ''Corn'') ?c Null =
      filter (\<lambda>s. s \<noteq> [])
        [''You are a helpful farming assistant.'', crop_line example_runtime (Str ''Corn''),
         weather_line example_runtime Null]"
    by blast+
  moreover have "crop_line example_runtime (Str ''Corn'') = ''Crop: Corn''"
    "weather_line example_runtime Null = []"
    by (simp_all add: crop_line_def weather_line_def toStr_def)
  moreover have "coords_line example_runtime (Obj [(''lat'', Num (Fin 10)), (''lon'', Num (Fin 20))]) =
     ''Coords: 10,20''"
    by code_simp
  ultimately show ?thesis using z by simp
qed

end
